theory Spec2Isabelle
  imports Complex_Main
begin

section \<open>Mapsy: data model\<close>

text \<open>
  The repository is a React client. Its files under \<^verbatim>\<open>src/\<close> hold several revisions
  of the same components; each revision that a property below talks about is
  embedded under its own name:
  \<^item> \<^verbatim>\<open>types/maps.ts\<close>: the interfaces \<open>Location\<close>, \<open>RouteStep\<close>, \<open>Route\<close>,
    \<open>SearchResult\<close>;
  \<^item> \<^verbatim>\<open>pages/Index.tsx\<close>: the page state and its handlers;
  \<^item> the directions panel in three revisions: the one that reports errors in
    \<open>routeError\<close> (stored in \<^verbatim>\<open>src/src/types/maps.ts\<close>), the one that falls back
    to a mock route (\<^verbatim>\<open>src/src/components/DirectionsPanel.tsx\<close>) and the one that
    only builds a mock route (\<^verbatim>\<open>src/unnamed/part_003\<close>);
  \<^item> the search panel (second half of \<^verbatim>\<open>src/src/components/DirectionsPanel.tsx\<close>);
  \<^item> the map view in a Leaflet revision (\<^verbatim>\<open>src/unnamed/part_002\<close>) and a Mapbox
    revision (\<^verbatim>\<open>src/unnamed/part_001\<close>).

  A JavaScript number is modelled as a real: every finite double is one. Where the
  source adds or subtracts numbers, the model rounds the exact result to a double
  (\<open>double_plus\<close>, \<open>double_minus\<close>), and a decimal literal of the source stands for the
  double nearest to it (\<open>to_double\<close>). Text that comes from the providers or from the
  source's literals is a \<open>string\<close>; text typed by the user is a list of UTF-16 code
  units (\<open>js_text\<close>).
\<close>

type_synonym coords = "real \<times> real" \<comment> \<open>\<open>[longitude, latitude]\<close>\<close>

record Location =
  id_loc :: string
  name_loc :: string
  address_loc :: string
  coordinates_loc :: coords

record RouteStep =
  id_step :: string
  instruction :: string
  distance_step :: real
  duration_step :: real
  coordinates_step :: "coords list"

record Route =
  id_route :: string
  origin_route :: Location
  destination_route :: Location
  distance_route :: real
  duration_route :: real
  steps :: "RouteStep list"
  geometry :: "coords list"

record SearchResult =
  id_res :: string
  name_res :: string
  address_res :: string
  coordinates_res :: coords
  type_res :: string

record AutocompleteResult =
  id_ac :: string
  name_ac :: string
  address_ac :: string
  coordinates_ac :: coords

section \<open>JavaScript built-ins used by the components\<close>

text \<open>\<open>Number.prototype.toString\<close> on a non-negative integer: its decimal digits.\<close>

definition digit_char :: "nat \<Rightarrow> char" where
  "digit_char d = ''0123456789'' ! (d mod 10)"

fun digits :: "nat \<Rightarrow> string" where
  "digits n = (if n < 10 then [digit_char n] else digits (n div 10) @ [digit_char n])"

declare digits.simps [simp del]

text \<open>
  \<open>x.toFixed(6)\<close> for a finite \<open>x\<close>: the sign, then the integer \<open>n\<close> nearest to
  \<open>|x| * 10^6\<close> (the larger one on a tie), written with at least seven digits and a
  point before the last six.
\<close>

definition toFixed6 :: "real \<Rightarrow> string" where
  "toFixed6 x =
     (let s = (if x < 0 then ''-'' else '''');
          n = nat \<lfloor>\<bar>x\<bar> * 1000000 + 1 / 2\<rfloor>;
          m = digits n;
          m' = replicate (7 - length m) CHR ''0'' @ m;
          k = length m'
      in s @ take (k - 6) m' @ ''.'' @ drop (k - 6) m')"

text \<open>
  Arithmetic on doubles (IEEE 754 binary64): the exact result is rounded to the nearest
  double, a tie to the one with an even significand. \<open>binade x\<close> is the exponent of
  \<open>x\<close>, not below that of the subnormal numbers; a double is an integer multiple of
  \<open>pow2 (binade x - 52)\<close>. Results beyond the largest double do not occur in the
  source's sums and are not modelled.
\<close>

definition pow2 :: "int \<Rightarrow> real" where
  "pow2 e = (if 0 \<le> e then 2 ^ nat e else 1 / 2 ^ nat (- e))"

definition binade :: "real \<Rightarrow> int" where
  "binade x = max (- 1022) \<lfloor>log 2 \<bar>x\<bar>\<rfloor>"

definition round_ties_even :: "real \<Rightarrow> int" where
  "round_ties_even q =
     (let f = \<lfloor>q\<rfloor>; r = q - of_int f
      in if r < 1 / 2 then f
         else if 1 / 2 < r then f + 1
         else if even f then f else f + 1)"

definition to_double :: "real \<Rightarrow> real" where
  "to_double x =
     (if x = 0 then 0
      else of_int (round_ties_even (x / pow2 (binade x - 52))) * pow2 (binade x - 52))"

definition double_plus :: "real \<Rightarrow> real \<Rightarrow> real" where
  "double_plus x y = to_double (x + y)"

definition double_minus :: "real \<Rightarrow> real \<Rightarrow> real" where
  "double_minus x y = to_double (x - y)"

text \<open>
  A string of the running program is a sequence of UTF-16 code units. \<open>utf16\<close> reads an
  ASCII literal as one.
\<close>

type_synonym js_text = "nat list"

definition utf16 :: "string \<Rightarrow> js_text" where
  "utf16 s = map of_char s"

text \<open>
  \<open>String.prototype.trim\<close> removes white space and line terminators at both ends: TAB,
  LF, VT, FF, CR, SPACE, NO-BREAK SPACE, ZERO WIDTH NO-BREAK SPACE (U+FEFF), LINE and
  PARAGRAPH SEPARATOR, and the other space separators of Unicode (U+1680, U+2000 to
  U+200A, U+202F, U+205F, U+3000). Each of them is one code unit.
\<close>

definition isWhiteSpace :: "nat \<Rightarrow> bool" where
  "isWhiteSpace c =
     (c \<in> set [0x09, 0x0A, 0x0B, 0x0C, 0x0D, 0x20, 0xA0, 0x1680, 0x2028, 0x2029, 0x202F,
                0x205F, 0x3000, 0xFEFF]
      \<or> (0x2000 \<le> c \<and> c \<le> 0x200A))"

definition trim :: "js_text \<Rightarrow> js_text" where
  "trim s = rev (dropWhile isWhiteSpace (rev (dropWhile isWhiteSpace s)))"

text \<open>\<open>s.split(',')[0]\<close>: the text before the first comma.\<close>

definition split_comma_first :: "string \<Rightarrow> string" where
  "split_comma_first s = takeWhile (\<lambda>c. c \<noteq> CHR '','') s"

text \<open>\<open>a || b\<close> on strings: the empty string is falsy.\<close>

definition or_else :: "string \<Rightarrow> string \<Rightarrow> string" where
  "or_else a b = (if a = [] then b else a)"

definition opt_or_else :: "string option \<Rightarrow> string \<Rightarrow> string" where
  "opt_or_else a b = (case a of None \<Rightarrow> b | Some x \<Rightarrow> or_else x b)"

text \<open>The template \<open>`${lat.toFixed(6)}, ${lng.toFixed(6)}`\<close> that the map view uses.\<close>

definition coordinate_label :: "real \<Rightarrow> real \<Rightarrow> string" where
  "coordinate_label lat lng = toFixed6 lat @ '', '' @ toFixed6 lng"

text \<open>\<open>xs.map((x, index) => f(x, index))\<close>.\<close>

definition map_index :: "('a \<Rightarrow> nat \<Rightarrow> 'b) \<Rightarrow> 'a list \<Rightarrow> 'b list" where
  "map_index f xs = map (\<lambda>(index, x). f x index) (enumerate 0 xs)"

section \<open>Page state (\<^verbatim>\<open>pages/Index.tsx\<close>)\<close>

record index_state =
  selectedLocation :: "Location option"
  currentLocation :: "Location option"
  route :: "Route option"
  isDirectionsMode :: bool
  destination :: "Location option"
  zoomToCoordinates :: "coords option"

definition index_init :: index_state where
  "index_init =
     \<lparr>selectedLocation = None, currentLocation = None, route = None,
      isDirectionsMode = False, destination = None, zoomToCoordinates = None\<rparr>"

text \<open>
  \<open>handleLocationSelect\<close> is created anew by every render and reads \<open>isDirectionsMode\<close>
  and \<open>currentLocation\<close> of the render that created it; its setters change the state
  of the moment. \<open>render\<close> is the page state of the render that created the function,
  \<open>s\<close> the state its setters change.
\<close>

definition handleLocationSelect :: "index_state \<Rightarrow> Location \<Rightarrow> index_state \<Rightarrow> index_state" where
  "handleLocationSelect render location s =
     (let s1 = s\<lparr>selectedLocation := Some location\<rparr>
      in if isDirectionsMode render \<and> currentLocation render \<noteq> None
         then s1\<lparr>destination := Some location\<rparr>
         else s1)"

definition handleCurrentLocationFound :: "Location \<Rightarrow> index_state \<Rightarrow> index_state" where
  "handleCurrentLocationFound location s = s\<lparr>currentLocation := Some location\<rparr>"

definition handleDirectionsToggle :: "index_state \<Rightarrow> index_state" where
  "handleDirectionsToggle s =
     s\<lparr>isDirectionsMode := \<not> isDirectionsMode s, route := None, destination := None\<rparr>"

definition handleRouteCalculated :: "Route \<Rightarrow> index_state \<Rightarrow> index_state" where
  "handleRouteCalculated calculatedRoute s = s\<lparr>route := Some calculatedRoute\<rparr>"

text \<open>
  \<open>handleStepClick\<close> sets \<open>zoomToCoordinates\<close> and arms a 100 ms timer; the timer's
  callback is \<open>zoomTimeout\<close>.
\<close>

definition handleStepClick :: "coords \<Rightarrow> index_state \<Rightarrow> index_state" where
  "handleStepClick coordinates s = s\<lparr>zoomToCoordinates := Some coordinates\<rparr>"

definition zoomTimeout :: "index_state \<Rightarrow> index_state" where
  "zoomTimeout s = s\<lparr>zoomToCoordinates := None\<rparr>"

section \<open>Geocoding and device position\<close>

text \<open>
  What \<open>await fetch(...)\<close> followed by \<open>await response.json()\<close> gives for a Nominatim
  reverse lookup: a rejection, the value \<open>null\<close> (reading a property of it throws), or
  an object with or without a \<open>display_name\<close>, which is a string when present.
\<close>

datatype reverse_response =
    ReverseFailed
  | ReverseNull
  | ReverseData "string option"

text \<open>The same for the Mapbox geocoder: an object with or without a \<open>features\<close> array.\<close>

record mapbox_feature =
  text_feature :: "string option"
  place_name :: "string option"

datatype mapbox_response =
    MapboxFailed
  | MapboxNull
  | MapboxData "mapbox_feature list option"

text \<open>
  \<open>navigator.geolocation\<close>: absent, or \<open>getCurrentPosition\<close> calls back with a
  position (\<open>[longitude, latitude]\<close>, and the answer the reverse lookup will give for it)
  or with an error code.
\<close>

datatype position_error = PERMISSION_DENIED | POSITION_UNAVAILABLE | TIMEOUT

datatype 'r geolocation =
    Unsupported
  | PositionFound coords 'r
  | PositionFailed position_error

record toast =
  title :: string
  description :: string

section \<open>Map view, Leaflet revision (\<^verbatim>\<open>src/unnamed/part_002\<close>)\<close>

text \<open>
  The Leaflet map object as far as the component drives it: the viewport last
  requested (\<open>setView\<close> or \<open>fitBounds\<close>) and the layers on the map. Leaflet takes
  \<open>[latitude, longitude]\<close>. A marker carries the role of the effect that created it;
  in the source the two kinds of marker differ by their popup text only.
\<close>

type_synonym latlng = "real \<times> real"

datatype viewport = View latlng nat | Bounds "latlng list"

datatype role = Selected | Current

datatype layer = TileLayer | Marker role latlng string | Polyline "latlng list"

record leaflet_map =
  viewport :: viewport
  layers :: "layer list"

record map_view =
  mapRef :: "leaflet_map option"
  markersRef :: "layer list"
  isLoadingLocation :: bool
  mapLoaded :: bool

definition map_view_init :: map_view where
  "map_view_init = \<lparr>mapRef = None, markersRef = [], isLoadingLocation = False, mapLoaded = False\<rparr>"

text \<open>\<open>initializeMap\<close>, once the library is loaded: nothing happens when a map exists.\<close>

definition initializeMap :: "map_view \<Rightarrow> map_view" where
  "initializeMap mv =
     (if mapRef mv \<noteq> None then mv
      else mv\<lparr>mapRef := Some \<lparr>viewport = View (40.7128, -74.0060) 10, layers = [TileLayer]\<rparr>,
              mapLoaded := True\<rparr>)"

text \<open>The click handler registered by \<open>initializeMap\<close>; the result lists the calls of
  \<open>onLocationSelect\<close>. \<open>now\<close> is \<open>Date.now()\<close>.\<close>

definition map_on_click :: "nat \<Rightarrow> real \<Rightarrow> real \<Rightarrow> reverse_response \<Rightarrow> Location list" where
  "map_on_click now lat lng resp =
     (let coordinates = (lng, lat)
      in case resp of
           ReverseData display_name \<Rightarrow>
             [\<lparr>id_loc = digits now,
               name_loc = opt_or_else (map_option split_comma_first display_name) ''Selected Location'',
               address_loc = opt_or_else display_name (coordinate_label lat lng),
               coordinates_loc = coordinates\<rparr>]
         | _ \<Rightarrow>
             [\<lparr>id_loc = digits now,
               name_loc = ''Selected Location'',
               address_loc = coordinate_label lat lng,
               coordinates_loc = coordinates\<rparr>])"

definition setView :: "latlng \<Rightarrow> nat \<Rightarrow> map_view \<Rightarrow> map_view" where
  "setView center zoom mv = mv\<lparr>mapRef := map_option (\<lambda>m. m\<lparr>viewport := View center zoom\<rparr>) (mapRef mv)\<rparr>"

definition errorMessage :: "position_error \<Rightarrow> string" where
  "errorMessage e =
     (case e of
        PERMISSION_DENIED \<Rightarrow> ''Location access denied. Please enable location permissions.''
      | POSITION_UNAVAILABLE \<Rightarrow> ''Location information is unavailable.''
      | TIMEOUT \<Rightarrow> ''Location request timed out.'')"

text \<open>
  \<open>getCurrentLocation\<close> run to completion: the component afterwards, the calls of
  \<open>onCurrentLocationFound\<close> and the toasts shown.
\<close>

definition getCurrentLocation ::
  "reverse_response geolocation \<Rightarrow> map_view \<Rightarrow> map_view \<times> Location list \<times> toast list" where
  "getCurrentLocation geo mv =
     (case geo of
        Unsupported \<Rightarrow>
          (mv\<lparr>isLoadingLocation := False\<rparr>, [],
           [\<lparr>title = ''Error'', description = ''Geolocation is not supported by this browser.''\<rparr>])
      | PositionFound coordinates resp \<Rightarrow>
          (case resp of
             ReverseData display_name \<Rightarrow>
               ((setView (snd coordinates, fst coordinates) 15 mv)\<lparr>isLoadingLocation := False\<rparr>,
                [\<lparr>id_loc = ''current-location'',
                  name_loc = ''Current Location'',
                  address_loc = opt_or_else display_name
                                  (coordinate_label (snd coordinates) (fst coordinates)),
                  coordinates_loc = coordinates\<rparr>],
                [])
           | _ \<Rightarrow>
               ((setView (snd coordinates, fst coordinates) 15 mv)\<lparr>isLoadingLocation := False\<rparr>,
                [\<lparr>id_loc = ''current-location'',
                  name_loc = ''Current Location'',
                  address_loc = coordinate_label (snd coordinates) (fst coordinates),
                  coordinates_loc = coordinates\<rparr>],
                []))
      | PositionFailed e \<Rightarrow>
          (mv\<lparr>isLoadingLocation := False\<rparr>, [],
           [\<lparr>title = ''Location Error'', description = errorMessage e\<rparr>]))"

text \<open>\<open>clearMarkers\<close>: every layer recorded in \<open>markersRef\<close> is taken off the map.\<close>

definition removeLayer :: "layer \<Rightarrow> leaflet_map \<Rightarrow> leaflet_map" where
  "removeLayer l m = m\<lparr>layers := remove1 l (layers m)\<rparr>"

definition addTo :: "layer \<Rightarrow> leaflet_map \<Rightarrow> leaflet_map" where
  "addTo l m = m\<lparr>layers := layers m @ [l]\<rparr>"

definition clearMarkers :: "map_view \<Rightarrow> map_view" where
  "clearMarkers mv =
     mv\<lparr>mapRef := map_option (\<lambda>m. foldl (\<lambda>m marker. removeLayer marker m) m (markersRef mv)) (mapRef mv),
        markersRef := []\<rparr>"

text \<open>The four effects, in the order the component declares them.\<close>

definition zoomEffect :: "coords option \<Rightarrow> map_view \<Rightarrow> map_view" where
  "zoomEffect z mv =
     (case z of
        Some c \<Rightarrow> setView (snd c, fst c) 18 mv
      | None \<Rightarrow> mv)"

definition selectedLocationEffect :: "Location option \<Rightarrow> map_view \<Rightarrow> map_view" where
  "selectedLocationEffect sel mv =
     (case (sel, mapRef mv) of
        (Some loc, Some _) \<Rightarrow>
          (let p = (snd (coordinates_loc loc), fst (coordinates_loc loc));
               mv1 = setView p 15 (clearMarkers mv);
               marker = Marker Selected p (name_loc loc)
           in mv1\<lparr>mapRef := map_option (addTo marker) (mapRef mv1),
                  markersRef := markersRef mv1 @ [marker]\<rparr>)
      | _ \<Rightarrow> mv)"

definition currentLocationEffect :: "Location option \<Rightarrow> map_view \<Rightarrow> map_view" where
  "currentLocationEffect cur mv =
     (case (cur, mapRef mv) of
        (Some loc, Some _) \<Rightarrow>
          (let marker = Marker Current (snd (coordinates_loc loc), fst (coordinates_loc loc))
                          ''Current Location''
           in mv\<lparr>mapRef := map_option (addTo marker) (mapRef mv),
                 markersRef := markersRef mv @ [marker]\<rparr>)
      | _ \<Rightarrow> mv)"

definition routeEffect :: "Route option \<Rightarrow> map_view \<Rightarrow> map_view" where
  "routeEffect r mv =
     (case (r, mapRef mv) of
        (Some rt, Some _) \<Rightarrow>
          (let routeCoords = map (\<lambda>coord. (snd coord, fst coord)) (geometry rt);
               polyline = Polyline routeCoords
           in mv\<lparr>mapRef := map_option (\<lambda>m. (addTo polyline m)\<lparr>viewport := Bounds routeCoords\<rparr>) (mapRef mv),
                 markersRef := markersRef mv @ [polyline]\<rparr>)
      | _ \<Rightarrow> mv)"

section \<open>Map view, Mapbox revision (\<^verbatim>\<open>src/unnamed/part_001\<close>)\<close>

text \<open>Of the Mapbox map only the target of the last \<open>flyTo\<close> is kept.\<close>

record mapbox_view =
  mapRef_mapbox :: "(coords \<times> nat) option"
  isLoadingLocation_mapbox :: bool

definition map_on_click_mapbox :: "nat \<Rightarrow> real \<Rightarrow> real \<Rightarrow> mapbox_response \<Rightarrow> Location list" where
  "map_on_click_mapbox now lat lng resp =
     (let coordinates = (lng, lat)
      in case resp of
           MapboxData (Some (feature # _)) \<Rightarrow>
             [\<lparr>id_loc = digits now,
               name_loc = opt_or_else (text_feature feature) ''Selected Location'',
               address_loc = opt_or_else (place_name feature)
                               (coordinate_label (snd coordinates) (fst coordinates)),
               coordinates_loc = coordinates\<rparr>]
         | _ \<Rightarrow> [])"

definition getCurrentLocation_mapbox ::
  "mapbox_response geolocation \<Rightarrow> mapbox_view \<Rightarrow> mapbox_view \<times> Location list \<times> toast list" where
  "getCurrentLocation_mapbox geo mv =
     (case geo of
        Unsupported \<Rightarrow>
          (mv\<lparr>isLoadingLocation_mapbox := False\<rparr>, [],
           [\<lparr>title = ''Error'', description = ''Geolocation is not supported by this browser.''\<rparr>])
      | PositionFound coordinates resp \<Rightarrow>
          (case resp of
             MapboxData features \<Rightarrow>
               (mv\<lparr>mapRef_mapbox := map_option (\<lambda>_. (coordinates, 15)) (mapRef_mapbox mv),
                   isLoadingLocation_mapbox := False\<rparr>,
                [\<lparr>id_loc = ''current-location'',
                  name_loc = ''Current Location'',
                  address_loc =
                    opt_or_else
                      (case features of Some (feature # _) \<Rightarrow> place_name feature | _ \<Rightarrow> None)
                      (coordinate_label (snd coordinates) (fst coordinates)),
                  coordinates_loc = coordinates\<rparr>],
                [])
           | _ \<Rightarrow> (mv\<lparr>isLoadingLocation_mapbox := False\<rparr>, [], []))
      | PositionFailed e \<Rightarrow>
          (mv\<lparr>isLoadingLocation_mapbox := False\<rparr>, [],
           [\<lparr>title = ''Error'',
             description = ''Unable to retrieve your location. Please enable location services.''\<rparr>]))"

section \<open>Routing\<close>

text \<open>
  The OSRM answer as the panel reads it: \<open>data.code\<close>, and \<open>data.routes\<close> when present.
  Of a route the panel reads \<open>legs[i].steps\<close>, \<open>distance\<close>, \<open>duration\<close> and
  \<open>geometry.coordinates\<close>; of a step \<open>maneuver.instruction\<close>, \<open>distance\<close>, \<open>duration\<close>
  and \<open>geometry.coordinates\<close>. \<open>RoutingFailed\<close> is a rejected \<open>fetch\<close> or \<open>json()\<close>, or a
  body that is not an object: each of them enters the \<open>catch\<close> block.
\<close>

record osrm_step =
  maneuver_instruction :: "string option"
  distance_osrm_step :: real
  duration_osrm_step :: real
  geometry_osrm_step :: "coords list"

record osrm_route =
  legs :: "osrm_step list list"
  distance_osrm :: real
  duration_osrm :: real
  geometry_osrm :: "coords list"

datatype routing_response =
    RoutingFailed
  | RoutingData string "osrm_route list option"

text \<open>
  The object built from \<open>data.routes[0]\<close>, the same text in both revisions that call the
  provider. \<open>None\<close> is the \<open>TypeError\<close> of \<open>routeData.legs[0].steps\<close> when there is no leg.
\<close>

definition toRouteStep :: "osrm_step \<Rightarrow> nat \<Rightarrow> RouteStep" where
  "toRouteStep step index =
     \<lparr>id_step = ''step-'' @ digits index,
      instruction = opt_or_else (maneuver_instruction step) (''Step '' @ digits (index + 1)),
      distance_step = distance_osrm_step step,
      duration_step = duration_osrm_step step,
      coordinates_step = map (\<lambda>coord. (fst coord, snd coord)) (geometry_osrm_step step)\<rparr>"

definition calculatedRoute :: "Location \<Rightarrow> Location \<Rightarrow> osrm_route \<Rightarrow> Route option" where
  "calculatedRoute orig dest routeData =
     (case legs routeData of
        [] \<Rightarrow> None
      | leg # _ \<Rightarrow>
          Some \<lparr>id_route = ''route-1'',
                origin_route = orig,
                destination_route = dest,
                distance_route = distance_osrm routeData,
                duration_route = duration_osrm routeData,
                steps = map_index toRouteStep leg,
                geometry = map (\<lambda>coord. (fst coord, snd coord)) (geometry_osrm routeData)\<rparr>)"

subsection \<open>The panel that reports errors (second half of \<^verbatim>\<open>src/src/types/maps.ts\<close>)\<close>

record directions_panel =
  isCalculating :: bool
  actualOrigin :: "Location option"
  actualDestination :: "Location option"
  routeError :: "string option"

definition msg_no_route :: string where
  "msg_no_route = ''No driving route available between these locations. The destinations may be in different regions or there may be no connecting roads.''"

definition msg_unable :: string where
  "msg_unable = ''Unable to calculate route. Please try different locations or check if the destinations are accessible by road.''"

definition msg_failed :: string where
  "msg_failed = ''Route calculation failed. Please check your internet connection and try again.''"

text \<open>\<open>calculateRoute\<close>: the panel afterwards and the calls of \<open>onRouteCalculated\<close>.\<close>

definition calculateRoute :: "routing_response \<Rightarrow> directions_panel \<Rightarrow> directions_panel \<times> Route list" where
  "calculateRoute resp p =
     (case (actualOrigin p, actualDestination p) of
        (Some orig, Some dest) \<Rightarrow>
          (let p1 = p\<lparr>isCalculating := True, routeError := None\<rparr>
           in case resp of
                RoutingFailed \<Rightarrow> (p1\<lparr>routeError := Some msg_failed, isCalculating := False\<rparr>, [])
              | RoutingData code routes \<Rightarrow>
                  if code = ''NoRoute''
                  then (p1\<lparr>routeError := Some msg_no_route, isCalculating := False\<rparr>, [])
                  else (case routes of
                          Some (routeData # _) \<Rightarrow>
                            (case calculatedRoute orig dest routeData of
                               Some r \<Rightarrow> (p1\<lparr>isCalculating := False\<rparr>, [r])
                             | None \<Rightarrow> (p1\<lparr>routeError := Some msg_failed, isCalculating := False\<rparr>, []))
                        | _ \<Rightarrow> (p1\<lparr>routeError := Some msg_unable, isCalculating := False\<rparr>, [])))
      | _ \<Rightarrow> (p, []))"

text \<open>
  The page with this panel: \<open>Index\<close> passes \<open>handleRouteCalculated\<close> as
  \<open>onRouteCalculated\<close>.
\<close>

definition directionsRequested ::
  "routing_response \<Rightarrow> index_state \<times> directions_panel \<Rightarrow> index_state \<times> directions_panel" where
  "directionsRequested resp sp =
     (let (p', calls) = calculateRoute resp (snd sp)
      in (foldl (\<lambda>s r. handleRouteCalculated r s) (fst sp) calls, p'))"

subsection \<open>The panel that falls back to a mock route (\<^verbatim>\<open>src/src/components/DirectionsPanel.tsx\<close>)\<close>

definition mockRoute_fallback :: "Location \<Rightarrow> Location \<Rightarrow> Route" where
  "mockRoute_fallback orig dest =
     \<lparr>id_route = ''route-1'',
      origin_route = orig,
      destination_route = dest,
      distance_route = 5200,
      duration_route = 780,
      steps =
        [\<lparr>id_step = ''step-1'',
          instruction = ''Head towards destination'',
          distance_step = 5200,
          duration_step = 780,
          coordinates_step = [coordinates_loc orig, coordinates_loc dest]\<rparr>],
      geometry =
        [coordinates_loc orig,
         (double_plus (fst (coordinates_loc orig)) (to_double (1 / 100)),
          double_plus (snd (coordinates_loc orig)) (to_double (1 / 100))),
         (double_minus (fst (coordinates_loc dest)) (to_double (1 / 100)),
          double_minus (snd (coordinates_loc dest)) (to_double (1 / 100))),
         coordinates_loc dest]\<rparr>"

text \<open>
  \<open>calculateRoute\<close> of this revision, on the props \<open>origin\<close> and \<open>destination\<close>:
  \<open>isCalculating\<close> afterwards and the calls of \<open>onRouteCalculated\<close>. A response without
  routes throws \<open>Error('No route found')\<close> into the \<open>catch\<close> block.
\<close>

definition calculateRoute_fallback ::
  "routing_response \<Rightarrow> bool \<Rightarrow> Location option \<Rightarrow> Location option \<Rightarrow> bool \<times> Route list" where
  "calculateRoute_fallback resp calculating orig_opt dest_opt =
     (case (orig_opt, dest_opt) of
        (Some orig, Some dest) \<Rightarrow>
          (case resp of
             RoutingData code (Some (routeData # _)) \<Rightarrow>
               (case calculatedRoute orig dest routeData of
                  Some r \<Rightarrow> (False, [r])
                | None \<Rightarrow> (False, [mockRoute_fallback orig dest]))
           | _ \<Rightarrow> (False, [mockRoute_fallback orig dest]))
      | _ \<Rightarrow> (calculating, []))"

definition directionsRequested_fallback :: "routing_response \<Rightarrow> index_state \<Rightarrow> index_state" where
  "directionsRequested_fallback resp s =
     foldl (\<lambda>s r. handleRouteCalculated r s) s
       (snd (calculateRoute_fallback resp False (currentLocation s) (destination s)))"

subsection \<open>The panel that only builds a mock route (\<^verbatim>\<open>src/unnamed/part_003\<close>)\<close>

definition mockRoute :: "Location \<Rightarrow> Location \<Rightarrow> Route" where
  "mockRoute orig dest =
     (let ox = fst (coordinates_loc orig); oy = snd (coordinates_loc orig);
          dx = fst (coordinates_loc dest); dy = snd (coordinates_loc dest);
          c = to_double (1 / 100); h = to_double (5 / 1000)
      in \<lparr>id_route = ''route-1'',
          origin_route = orig,
          destination_route = dest,
          distance_route = 5200,
          duration_route = 780,
          steps =
            [\<lparr>id_step = ''step-1'',
              instruction = ''Head north on Main Street'',
              distance_step = 800,
              duration_step = 120,
              coordinates_step = [coordinates_loc orig, (ox, double_plus oy h)]\<rparr>,
             \<lparr>id_step = ''step-2'',
              instruction = ''Turn right onto Broadway'',
              distance_step = 1200,
              duration_step = 180,
              coordinates_step = [(ox, double_plus oy h), (double_plus ox c, double_plus oy c)]\<rparr>,
             \<lparr>id_step = ''step-3'',
              instruction = ''Continue straight for 2.1 miles'',
              distance_step = 3200,
              duration_step = 480,
              coordinates_step = [(double_plus ox c, double_plus oy c),
                                  (double_minus dx c, double_minus dy c)]\<rparr>],
          geometry =
            [coordinates_loc orig, (double_plus ox c, double_plus oy c),
             (double_minus dx c, double_minus dy c), coordinates_loc dest]\<rparr>)"

definition calculateRoute_mock ::
  "bool \<Rightarrow> Location option \<Rightarrow> Location option \<Rightarrow> bool \<times> Route list" where
  "calculateRoute_mock calculating orig_opt dest_opt =
     (case (orig_opt, dest_opt) of
        (Some orig, Some dest) \<Rightarrow> (False, [mockRoute orig dest])
      | _ \<Rightarrow> (calculating, []))"

subsection \<open>Distances between two coordinate pairs, as the specification words them\<close>

text \<open>
  These two definitions are not taken from the source. They spell out "the great-circle or
  planar approximation" of the distance between origin and destination, for comparison
  with the distance of the fallback route: the haversine formula on a sphere of radius
  6371000 m, and the Euclidean length of the coordinate difference.
\<close>

definition spec_great_circle_distance :: "coords \<Rightarrow> coords \<Rightarrow> real" where
  "spec_great_circle_distance a b =
     (let rad = (\<lambda>deg. deg * pi / 180);
          dphi = rad (snd b - snd a);
          dlam = rad (fst b - fst a);
          h = (sin (dphi / 2))\<^sup>2 + cos (rad (snd a)) * cos (rad (snd b)) * (sin (dlam / 2))\<^sup>2
      in 2 * 6371000 * arcsin (sqrt h))"

definition spec_planar_distance :: "coords \<Rightarrow> coords \<Rightarrow> real" where
  "spec_planar_distance a b = sqrt ((fst b - fst a)\<^sup>2 + (snd b - snd a)\<^sup>2)"

section \<open>Search\<close>

text \<open>
  The Nominatim search answer: a rejection, or an array of items. \<open>lon\<close> and \<open>lat\<close> are
  the numbers \<open>parseFloat\<close> reads from the item.
\<close>

record nominatim_item =
  place_id :: "nat option"
  display_name :: string
  lon_item :: real
  lat_item :: real
  type_item :: "string option"

datatype search_response =
    SearchFailed
  | SearchData "nominatim_item list"

subsection \<open>Search panel (second half of \<^verbatim>\<open>src/src/components/DirectionsPanel.tsx\<close>)\<close>

record search_panel =
  searchQuery :: js_text
  searchResults :: "SearchResult list"
  isLoading :: bool

definition search_panel_init :: search_panel where
  "search_panel_init = \<lparr>searchQuery = [], searchResults = [], isLoading = False\<rparr>"

definition toSearchResult :: "nominatim_item \<Rightarrow> nat \<Rightarrow> SearchResult" where
  "toSearchResult item index =
     \<lparr>id_res = opt_or_else (map_option digits (place_id item)) (digits index),
      name_res = split_comma_first (display_name item),
      address_res = display_name item,
      coordinates_res = (lon_item item, lat_item item),
      type_res = opt_or_else (type_item item) ''place''\<rparr>"

text \<open>
  \<open>searchLocations\<close> suspends at \<open>await fetch(...)\<close>. \<open>searchLocations_begin\<close> is the part
  before it, with the queries it sends to the provider; \<open>searchLocations_resume\<close> is the
  part that runs when the answer is there. \<open>searchLocations\<close> runs both against a
  provider that answers at once.
\<close>

definition searchLocations_begin :: "js_text \<Rightarrow> search_panel \<Rightarrow> search_panel \<times> js_text list" where
  "searchLocations_begin query s =
     (if trim query = [] then (s\<lparr>searchResults := []\<rparr>, [])
      else (s\<lparr>isLoading := True\<rparr>, [query]))"

definition searchLocations_resume :: "search_response \<Rightarrow> search_panel \<Rightarrow> search_panel" where
  "searchLocations_resume resp s =
     (case resp of
        SearchData data \<Rightarrow> s\<lparr>searchResults := map_index toSearchResult data, isLoading := False\<rparr>
      | SearchFailed \<Rightarrow> s\<lparr>searchResults := [], isLoading := False\<rparr>)"

definition searchLocations ::
  "(js_text \<Rightarrow> search_response) \<Rightarrow> js_text \<Rightarrow> search_panel \<Rightarrow> search_panel \<times> js_text list" where
  "searchLocations provider query s =
     (let (s1, sent) = searchLocations_begin query s
      in (foldl (\<lambda>s q. searchLocations_resume (provider q) s) s1 sent, sent))"

text \<open>
  The search box over time. \<open>handleSearchInputChange\<close> stores the text and arms a 300 ms
  timer whose callback calls \<open>searchLocations(query)\<close>; the function it returns, which
  would clear the timer, is the return value of an \<open>onChange\<close> handler and is never
  called, so every timer fires. Timers of equal delay fire in the order they were armed;
  answers arrive in any order. \<open>sent\<close> lists every query sent to the provider.
\<close>

record search_box =
  panel :: search_panel
  timers :: "js_text list"
  inflight :: "js_text list"
  sent :: "js_text list"

definition search_box_init :: search_box where
  "search_box_init = \<lparr>panel = search_panel_init, timers = [], inflight = [], sent = []\<rparr>"

datatype search_event =
    Input js_text
  | TimerFires
  | Arrives nat search_response

definition handleSearchInputChange :: "js_text \<Rightarrow> search_box \<Rightarrow> search_box" where
  "handleSearchInputChange query b =
     b\<lparr>panel := (panel b)\<lparr>searchQuery := query\<rparr>, timers := timers b @ [query]\<rparr>"

definition search_step :: "search_event \<Rightarrow> search_box \<Rightarrow> search_box" where
  "search_step e b =
     (case e of
        Input query \<Rightarrow> handleSearchInputChange query b
      | TimerFires \<Rightarrow>
          (case timers b of
             [] \<Rightarrow> b
           | query # rest \<Rightarrow>
               (let (p, qs) = searchLocations_begin query (panel b)
                in b\<lparr>panel := p, timers := rest, inflight := inflight b @ qs, sent := sent b @ qs\<rparr>))
      | Arrives k resp \<Rightarrow>
          (if k < length (inflight b)
           then b\<lparr>panel := searchLocations_resume resp (panel b),
                  inflight := take k (inflight b) @ drop (Suc k) (inflight b)\<rparr>
           else b))"

definition search_run :: "search_event list \<Rightarrow> search_box \<Rightarrow> search_box" where
  "search_run es b = foldl (\<lambda>b e. search_step e b) b es"

subsection \<open>Autocomplete of the directions panel (second half of \<^verbatim>\<open>src/src/types/maps.ts\<close>)\<close>

definition toAutocompleteResult :: "nominatim_item \<Rightarrow> nat \<Rightarrow> AutocompleteResult" where
  "toAutocompleteResult item index =
     \<lparr>id_ac = opt_or_else (map_option digits (place_id item)) (digits index),
      name_ac = split_comma_first (display_name item),
      address_ac = display_name item,
      coordinates_ac = (lon_item item, lat_item item)\<rparr>"

text \<open>This \<open>searchLocations\<close> returns its results; the second component lists the queries
  sent to the provider.\<close>

definition searchLocations_directions ::
  "(js_text \<Rightarrow> search_response) \<Rightarrow> js_text \<Rightarrow> AutocompleteResult list \<times> js_text list" where
  "searchLocations_directions provider query =
     (if trim query = [] then ([], [])
      else (case provider query of
              SearchData data \<Rightarrow> (map_index toAutocompleteResult data, [query])
            | SearchFailed \<Rightarrow> ([], [query])))"

section \<open>The page and the Leaflet map view together\<close>

text \<open>
  One event is a handler run to completion followed by the effects of the map view
  whose dependency the handler replaced. React compares a dependency with its value at
  the previous render by identity: an effect runs when the state variable holds another
  object than before. A click on the map, a click on a search result, a position fix
  and a calculated route each build a new object. A click on a recent search passes the
  stored object, which may be the object already selected; then the effect of
  \<open>selectedLocation\<close> does not run. \<open>selectedRef\<close> is the identity of the object that
  \<open>selectedLocation\<close> holds, \<open>nextRef\<close> the first identity not used so far.

  The map's click handler is registered once, by \<open>initializeMap\<close> after the first
  render, and keeps the \<open>onLocationSelect\<close> of that render: the \<open>handleLocationSelect\<close>
  that reads the initial \<open>isDirectionsMode\<close> and \<open>currentLocation\<close>. The search panel
  has the \<open>handleLocationSelect\<close> of the current render, and is mounted outside
  directions mode only.
\<close>

record app =
  page :: index_state
  view :: map_view
  selectedRef :: "nat option"
  nextRef :: nat

definition app_init :: app where
  "app_init = \<lparr>page = index_init, view = map_view_init, selectedRef = None, nextRef = 0\<rparr>"

datatype app_event =
    MapReady
  | MapClick nat real real reverse_response
  | SearchPick Location
  | RecentClick nat Location
  | UseMyLocation "reverse_response geolocation"
  | DirectionsToggle
  | RouteCalculated Route
  | StepClick coords
  | ZoomTimeout

text \<open>
  \<open>selectLocation render obj loc\<close>: the \<open>handleLocationSelect\<close> of the render \<open>render\<close> is
  called with the object \<open>obj\<close>, whose value is \<open>loc\<close>.
\<close>

definition selectLocation :: "index_state \<Rightarrow> nat \<Rightarrow> Location \<Rightarrow> app \<Rightarrow> app" where
  "selectLocation render obj loc a =
     (let s = handleLocationSelect render loc (page a)
      in a\<lparr>page := s,
           view := (if selectedRef a = Some obj then view a
                    else selectedLocationEffect (selectedLocation s) (view a)),
           selectedRef := Some obj,
           nextRef := max (nextRef a) (Suc obj)\<rparr>)"

definition foundCurrentLocation :: "Location \<Rightarrow> app \<Rightarrow> app" where
  "foundCurrentLocation loc a =
     (let s = handleCurrentLocationFound loc (page a)
      in a\<lparr>page := s, view := currentLocationEffect (currentLocation s) (view a)\<rparr>)"

definition app_step :: "app_event \<Rightarrow> app \<Rightarrow> app" where
  "app_step e a =
     (case e of
        MapReady \<Rightarrow> a\<lparr>view := initializeMap (view a)\<rparr>
      | MapClick now lat lng resp \<Rightarrow>
          (if mapRef (view a) = None then a
           else foldl (\<lambda>a loc. selectLocation index_init (nextRef a) loc a) a
                  (map_on_click now lat lng resp))
      | SearchPick loc \<Rightarrow>
          (if isDirectionsMode (page a) then a
           else selectLocation (page a) (nextRef a) loc a)
      | RecentClick obj loc \<Rightarrow>
          (if isDirectionsMode (page a) then a
           else selectLocation (page a) obj loc a)
      | UseMyLocation geo \<Rightarrow>
          (let (mv, found, toasts) = getCurrentLocation geo (view a)
           in foldl (\<lambda>a loc. foundCurrentLocation loc a) (a\<lparr>view := mv\<rparr>) found)
      | DirectionsToggle \<Rightarrow>
          (let s = handleDirectionsToggle (page a)
           in a\<lparr>page := s, view := routeEffect (route s) (view a)\<rparr>)
      | RouteCalculated r \<Rightarrow>
          (let s = handleRouteCalculated r (page a)
           in a\<lparr>page := s, view := routeEffect (route s) (view a)\<rparr>)
      | StepClick c \<Rightarrow>
          (let s = handleStepClick c (page a)
           in a\<lparr>page := s, view := zoomEffect (zoomToCoordinates s) (view a)\<rparr>)
      | ZoomTimeout \<Rightarrow>
          (let s = zoomTimeout (page a)
           in a\<lparr>page := s, view := zoomEffect (zoomToCoordinates s) (view a)\<rparr>))"

definition app_run :: "app_event list \<Rightarrow> app \<Rightarrow> app" where
  "app_run es a = foldl (\<lambda>a e. app_step e a) a es"

text \<open>The markers of one role on the map.\<close>

fun has_role :: "role \<Rightarrow> layer \<Rightarrow> bool" where
  "has_role r (Marker r' _ _) = (r = r')"
| "has_role r _ = False"

definition markers_of :: "role \<Rightarrow> app \<Rightarrow> layer list" where
  "markers_of r a =
     (case mapRef (view a) of
        None \<Rightarrow> []
      | Some m \<Rightarrow> filter (has_role r) (layers m))"

text \<open>
  Every layer the component puts on the map is also pushed on \<open>markersRef\<close>; the tile
  layer is the one exception. \<open>tracked\<close> states this about a map view.
\<close>

definition tracked :: "map_view \<Rightarrow> bool" where
  "tracked mv =
     (case mapRef mv of
        None \<Rightarrow> markersRef mv = []
      | Some m \<Rightarrow> layers m = TileLayer # markersRef mv \<and> TileLayer \<notin> set (markersRef mv))"

text \<open>At most one of the recorded layers is a marker of the selected location.\<close>

definition one_selected :: "map_view \<Rightarrow> bool" where
  "one_selected mv = (length (filter (has_role Selected) (markersRef mv)) \<le> 1)"

text \<open>The object that \<open>selectedLocation\<close> holds has an identity that is in use.\<close>

definition refs_used :: "app \<Rightarrow> bool" where
  "refs_used a = (case selectedRef a of None \<Rightarrow> True | Some obj \<Rightarrow> obj < nextRef a)"

section \<open>Values used in the examples\<close>

definition example_origin :: Location where
  "example_origin =
     \<lparr>id_loc = ''current-location'', name_loc = ''Current Location'',
      address_loc = ''40.700000, -74.000000'', coordinates_loc = (-74, 40.7)\<rparr>"

definition example_destination :: Location where
  "example_destination =
     \<lparr>id_loc = ''1730000000000'', name_loc = ''Selected Location'',
      address_loc = ''40.800000, -73.900000'', coordinates_loc = (-73.9, 40.8)\<rparr>"

definition example_osrm_route :: osrm_route where
  "example_osrm_route =
     \<lparr>legs = [[\<lparr>maneuver_instruction = Some ''Head north'', distance_osrm_step = 14000,
                  duration_osrm_step = 1200,
                  geometry_osrm_step = [(-74.001, 40.701), (-73.901, 40.799)]\<rparr>,
                \<lparr>maneuver_instruction = None, distance_osrm_step = 0,
                  duration_osrm_step = 0,
                  geometry_osrm_step = [(-73.901, 40.799)]\<rparr>]],
      distance_osrm = 14000,
      duration_osrm = 1200,
      geometry_osrm = [(-74.001, 40.701), (-73.901, 40.799)]\<rparr>"

definition example_route :: Route where
  "example_route =
     \<lparr>id_route = ''route-1'', origin_route = example_origin,
      destination_route = example_destination, distance_route = 14000,
      duration_route = 1200,
      steps = [\<lparr>id_step = ''step-0'', instruction = ''Head north'', distance_step = 14000,
                duration_step = 1200,
                coordinates_step = [(-74.001, 40.701), (-73.901, 40.799)]\<rparr>,
               \<lparr>id_step = ''step-1'', instruction = ''Step 2'', distance_step = 0,
                duration_step = 0, coordinates_step = [(-73.901, 40.799)]\<rparr>],
      geometry = [(-74.001, 40.701), (-73.901, 40.799)]\<rparr>"

definition example_fix :: app_event where
  "example_fix = UseMyLocation (PositionFound (-74, 40.7) ReverseFailed)"

definition example_fix2 :: app_event where
  "example_fix2 = UseMyLocation (PositionFound (-73.9, 40.8) ReverseFailed)"

definition example_click :: app_event where
  "example_click = MapClick 1730000000000 40.8 (-73.9) ReverseFailed"

definition example_click2 :: app_event where
  "example_click2 = MapClick 1730000000001 41 (-73) ReverseFailed"

text \<open>Two places whose coordinates are doubles.\<close>

definition example_start :: Location where
  "example_start =
     \<lparr>id_loc = ''current-location'', name_loc = ''Current Location'',
      address_loc = ''40.500000, -74.000000'', coordinates_loc = (-74, 81 / 2)\<rparr>"

definition example_end :: Location where
  "example_end =
     \<lparr>id_loc = ''7'', name_loc = ''Main Street'',
      address_loc = ''Main Street, Springfield'', coordinates_loc = (- (295 / 4), 163 / 4)\<rparr>"

text \<open>The route of the provider for a destination chosen in the directions panel.\<close>

definition example_trip :: Route where
  "example_trip = example_route\<lparr>destination_route := example_end\<rparr>"

definition example_panel :: directions_panel where
  "example_panel =
     \<lparr>isCalculating = False, actualOrigin = Some example_origin,
      actualDestination = Some example_destination, routeError = None\<rparr>"

definition central_items :: "nominatim_item list" where
  "central_items =
     [\<lparr>place_id = Some 11, display_name = ''Central Station, Sydney'', lon_item = 151.2,
       lat_item = -33.88, type_item = Some ''station''\<rparr>]"

definition central_park_items :: "nominatim_item list" where
  "central_park_items =
     [\<lparr>place_id = Some 22, display_name = ''Central Park, New York'', lon_item = -73.97,
       lat_item = 40.78, type_item = None\<rparr>]"

section \<open>Auxiliary facts\<close>

text \<open>Rewrite rules that let the simplifier run the formatting functions on numerals.\<close>

lemma digits_numeral [simp]:
  "digits (numeral k) =
     (if (numeral k :: nat) < 10 then [digit_char (numeral k)]
      else digits (numeral k div 10) @ [digit_char (numeral k)])"
  by (rule digits.simps)

lemma digits_0 [simp]: "digits 0 = ''0''"
  by (simp add: digits.simps digit_char_def)

lemma digits_1 [simp]: "digits (Suc 0) = ''1''"
  by (simp add: digits.simps digit_char_def)

lemma digit_char_numeral [simp]:
  "digit_char (numeral k) = ''0123456789'' ! (numeral k mod 10)"
  by (rule digit_char_def)

lemma replicate_numeral [simp]:
  "replicate (numeral k) x = x # replicate (pred_numeral k) x"
  by (simp add: numeral_eq_Suc)

text \<open>Evaluating \<open>to_double\<close>: the binade of a number is read off two powers of two.\<close>

lemma pow2_pos: "0 < pow2 e"
  by (simp add: pow2_def)

lemma pow2_powr: "pow2 e = 2 powr (of_int e)"
  by (auto simp add: pow2_def powr_realpow [symmetric] powr_minus divide_simps)

lemma binade_eq:
  assumes "pow2 e \<le> \<bar>x\<bar>" and "\<bar>x\<bar> < pow2 (e + 1)" and "- 1022 \<le> e"
  shows "binade x = e"
proof -
  have pos: "0 < \<bar>x\<bar>" using assms(1) pow2_pos [of e] by linarith
  have "of_int e \<le> log 2 \<bar>x\<bar>"
    using assms(1) pos by (simp add: pow2_powr powr_le_iff)
  moreover have "log 2 \<bar>x\<bar> < of_int (e + 1)"
    using assms(2) pos by (simp add: pow2_powr less_powr_iff)
  ultimately have "\<lfloor>log 2 \<bar>x\<bar>\<rfloor> = e" by linarith
  with assms(3) show ?thesis by (simp add: binade_def)
qed

lemma to_double_eval:
  assumes "pow2 e \<le> \<bar>x\<bar>" and "\<bar>x\<bar> < pow2 (e + 1)" and "- 1022 \<le> e"
  shows "to_double x = of_int (round_ties_even (x / pow2 (e - 52))) * pow2 (e - 52)"
proof -
  have "x \<noteq> 0" using assms(1) pow2_pos [of e] by auto
  then show ?thesis by (simp add: to_double_def binade_eq [OF assms])
qed

lemma literal_one_hundredth: "to_double (1 / 100) = 5764607523034235 / 2 ^ 59"
  by (subst to_double_eval [of "- 7"]) (simp_all add: pow2_def round_ties_even_def Let_def)

lemma trim_blank:
  assumes "\<forall>c\<in>set q. isWhiteSpace c"
  shows "trim q = []"
proof -
  from assms have d: "dropWhile isWhiteSpace q = []" by simp
  show ?thesis unfolding trim_def d by simp
qed

text \<open>\<open>toFixed6\<close> writes exactly six digits after the point.\<close>

lemma toFixed6_six_decimals:
  "\<exists>a b. toFixed6 x = a @ ''.'' @ b \<and> length b = 6"
proof -
  define m where "m = digits (nat \<lfloor>\<bar>x\<bar> * 1000000 + 1 / 2\<rfloor>)"
  define m' where "m' = replicate (7 - length m) CHR ''0'' @ m"
  have k: "7 \<le> length m'" by (simp add: m'_def)
  have "toFixed6 x = ((if x < 0 then ''-'' else '''') @ take (length m' - 6) m') @ ''.'' @ drop (length m' - 6) m'"
    by (simp add: toFixed6_def m_def m'_def Let_def)
  moreover from k have "length (drop (length m' - 6) m') = 6" by simp
  ultimately show ?thesis by blast
qed

text \<open>The coordinate labels of the examples.\<close>

lemma coordinate_label_origin: "coordinate_label (407 / 10) (- 74) = ''40.700000, -74.000000''"
  by (simp add: coordinate_label_def toFixed6_def)

lemma coordinate_label_destination: "coordinate_label (204 / 5) (- (739 / 10)) = ''40.800000, -73.900000''"
  by (simp add: coordinate_label_def toFixed6_def)

lemma coordinate_label_other: "coordinate_label 41 (- 73) = ''41.000000, -73.000000''"
  by (simp add: coordinate_label_def toFixed6_def)

section \<open>Search with a blank query\<close>

text \<open>
  C7. For every query that is empty or consists only of white space, \<open>searchLocations\<close>
  gives an empty result and sends nothing to the provider: the search panel's function
  sets \<open>searchResults\<close> to the empty list and touches nothing else, the directions
  panel's function returns the empty list. A query is any sequence of UTF-16 code
  units; white space is what \<open>String.prototype.trim\<close> removes.
\<close>

theorem blank_query_sends_nothing:
  assumes "\<forall>c\<in>set q. isWhiteSpace c"
  shows "searchLocations provider q s = (s\<lparr>searchResults := []\<rparr>, [])
         \<and> searchLocations_directions provider q = ([], [])"
  using trim_blank [OF assms]
  by (simp add: searchLocations_def searchLocations_begin_def searchLocations_directions_def)

theorem blank_query_sends_nothing_witness:
  "list_all isWhiteSpace [0x20, 0x3000, 0x09, 0x2003, 0xFEFF]
   \<and> searchLocations (\<lambda>_. SearchFailed) [0x20, 0x3000, 0x09, 0x2003, 0xFEFF] search_panel_init
       = (search_panel_init\<lparr>searchResults := []\<rparr>, [])
   \<and> searchLocations_directions (\<lambda>_. SearchFailed) [0x20, 0x3000, 0x09, 0x2003, 0xFEFF] = ([], [])"
proof -
  have h: "\<forall>c\<in>set [0x20, 0x3000, 0x09, 0x2003, 0xFEFF]. isWhiteSpace c"
    by (simp add: isWhiteSpace_def)
  show ?thesis
    using h blank_query_sends_nothing [OF h, of "\<lambda>_. SearchFailed" search_panel_init]
    by (simp add: isWhiteSpace_def)
qed

section \<open>The location of "use my location"\<close>

text \<open>
  C10. Every \<open>Location\<close> that \<open>getCurrentLocation\<close> hands to \<open>onCurrentLocationFound\<close> has
  the id \<open>current-location\<close> and the name \<open>Current Location\<close>, for every device position and
  every outcome of the reverse lookup, in the Leaflet and in the Mapbox revision; so the
  locations of any two fixes have the same id. In the Leaflet revision a position always
  yields exactly one such location.
\<close>

theorem use_my_location_identity:
  "(\<forall>loc \<in> set (fst (snd (getCurrentLocation geo mv))).
      id_loc loc = ''current-location'' \<and> name_loc loc = ''Current Location'')
   \<and> (\<forall>loc \<in> set (fst (snd (getCurrentLocation_mapbox geo' mv'))).
      id_loc loc = ''current-location'' \<and> name_loc loc = ''Current Location'')
   \<and> (\<forall>loc1 \<in> set (fst (snd (getCurrentLocation geo mv))).
       \<forall>loc2 \<in> set (fst (snd (getCurrentLocation geo2 mv2))). id_loc loc1 = id_loc loc2)
   \<and> length (fst (snd (getCurrentLocation (PositionFound c resp) mv))) = 1"
proof -
  have leaflet: "id_loc loc = ''current-location'' \<and> name_loc loc = ''Current Location''"
    if "loc \<in> set (fst (snd (getCurrentLocation g v)))" for loc g v
  proof (cases g)
    case (PositionFound p r)
    with that show ?thesis
      by (cases r) (auto simp add: getCurrentLocation_def)
  qed (use that in \<open>simp_all add: getCurrentLocation_def\<close>)
  have mapbox: "id_loc loc = ''current-location'' \<and> name_loc loc = ''Current Location''"
    if "loc \<in> set (fst (snd (getCurrentLocation_mapbox g v)))" for loc g v
  proof (cases g)
    case (PositionFound p r)
    with that show ?thesis
      by (cases r) (auto simp add: getCurrentLocation_mapbox_def)
  qed (use that in \<open>simp_all add: getCurrentLocation_mapbox_def\<close>)
  have one: "length (fst (snd (getCurrentLocation (PositionFound c resp) mv))) = 1"
    by (cases resp) (simp_all add: getCurrentLocation_def)
  from leaflet mapbox one show ?thesis by simp
qed

theorem use_my_location_identity_witness:
  "fst (snd (getCurrentLocation (PositionFound (-74, 40.7) ReverseFailed) map_view_init))
     = [\<lparr>id_loc = ''current-location'', name_loc = ''Current Location'',
         address_loc = ''40.700000, -74.000000'', coordinates_loc = (-74, 40.7)\<rparr>]
   \<and> fst (snd (getCurrentLocation (PositionFound (-73.9, 40.8) (ReverseData (Some ''Harlem, New York''))) map_view_init))
     = [\<lparr>id_loc = ''current-location'', name_loc = ''Current Location'',
         address_loc = ''Harlem, New York'', coordinates_loc = (-73.9, 40.8)\<rparr>]
   \<and> map id_loc (fst (snd (getCurrentLocation (PositionFound (-74, 40.7) ReverseFailed) map_view_init)))
     = map id_loc (fst (snd (getCurrentLocation
                     (PositionFound (-73.9, 40.8) (ReverseData (Some ''Harlem, New York''))) map_view_init)))
   \<and> fst (snd (getCurrentLocation_mapbox (PositionFound (-74, 40.7) (MapboxData None))
                  \<lparr>mapRef_mapbox = None, isLoadingLocation_mapbox = True\<rparr>))
     = [\<lparr>id_loc = ''current-location'', name_loc = ''Current Location'',
         address_loc = ''40.700000, -74.000000'', coordinates_loc = (-74, 40.7)\<rparr>]"
proof -
  have e1: "fst (snd (getCurrentLocation (PositionFound (-74, 40.7) ReverseFailed) map_view_init))
     = [\<lparr>id_loc = ''current-location'', name_loc = ''Current Location'',
         address_loc = ''40.700000, -74.000000'', coordinates_loc = (-74, 40.7)\<rparr>]"
    by (simp add: getCurrentLocation_def coordinate_label_origin)
  have e2: "fst (snd (getCurrentLocation (PositionFound (-73.9, 40.8) (ReverseData (Some ''Harlem, New York''))) map_view_init))
     = [\<lparr>id_loc = ''current-location'', name_loc = ''Current Location'',
         address_loc = ''Harlem, New York'', coordinates_loc = (-73.9, 40.8)\<rparr>]"
    by (simp add: getCurrentLocation_def opt_or_else_def or_else_def)
  have e3: "fst (snd (getCurrentLocation_mapbox (PositionFound (-74, 40.7) (MapboxData None))
                  \<lparr>mapRef_mapbox = None, isLoadingLocation_mapbox = True\<rparr>))
     = [\<lparr>id_loc = ''current-location'', name_loc = ''Current Location'',
         address_loc = ''40.700000, -74.000000'', coordinates_loc = (-74, 40.7)\<rparr>]"
    by (simp add: getCurrentLocation_mapbox_def opt_or_else_def coordinate_label_origin)
  show ?thesis
    using use_my_location_identity
          [of "PositionFound (-74, 40.7) ReverseFailed" map_view_init
              "PositionFound (-74, 40.7) (MapboxData None)"
              "\<lparr>mapRef_mapbox = None, isLoadingLocation_mapbox = True\<rparr>"
              "PositionFound (-73.9, 40.8) (ReverseData (Some ''Harlem, New York''))" map_view_init]
    unfolding e1 e2 e3 by simp
qed

section \<open>A response that reports no route\<close>

text \<open>
  The panel that falls back to a mock route does not look at \<open>data.code\<close>. A response
  with code \<open>NoRoute\<close> has no routes, so the panel throws \<open>Error('No route found')\<close> into
  its own \<open>catch\<close> block and hands the mock route to \<open>onRouteCalculated\<close>: the page's
  route, null before, is the mock route afterwards.
\<close>

theorem no_route_falls_back_to_mock:
  "route (index_init\<lparr>currentLocation := Some example_origin,
                      destination := Some example_destination\<rparr>) = None
   \<and> route (directionsRequested_fallback (RoutingData ''NoRoute'' None)
         (index_init\<lparr>currentLocation := Some example_origin,
                      destination := Some example_destination\<rparr>))
       = Some (mockRoute_fallback example_origin example_destination)"
  by (simp add: index_init_def directionsRequested_fallback_def calculateRoute_fallback_def
        handleRouteCalculated_def)

text \<open>
  C1, for the panel that reports errors. When origin and destination are set and the
  provider answers with code \<open>NoRoute\<close>, \<open>calculateRoute\<close> sets \<open>routeError\<close> to the
  "No driving route available" message, calls \<open>onRouteCalculated\<close> not at all and leaves
  \<open>isCalculating\<close> false; the page state is untouched, so a null route stays null.
\<close>

theorem no_route_reported_not_committed:
  assumes "actualOrigin p = Some orig" and "actualDestination p = Some dest"
  shows "calculateRoute (RoutingData ''NoRoute'' routes) p
           = (p\<lparr>isCalculating := False, routeError := Some msg_no_route\<rparr>, [])
         \<and> directionsRequested (RoutingData ''NoRoute'' routes) (s, p)
           = (s, p\<lparr>isCalculating := False, routeError := Some msg_no_route\<rparr>)"
  using assms by (simp add: directionsRequested_def calculateRoute_def)

theorem no_route_reported_not_committed_witness:
  "actualOrigin example_panel = Some example_origin
   \<and> actualDestination example_panel = Some example_destination
   \<and> route (fst (directionsRequested (RoutingData ''NoRoute'' None) (index_init, example_panel))) = None
   \<and> routeError (snd (directionsRequested (RoutingData ''NoRoute'' None) (index_init, example_panel)))
       = Some msg_no_route"
proof -
  have o: "actualOrigin example_panel = Some example_origin"
    and d: "actualDestination example_panel = Some example_destination"
    by (simp_all add: example_panel_def)
  have r: "route index_init = None" by (simp add: index_init_def)
  show ?thesis
    using no_route_reported_not_committed [OF o d, of None index_init] o d r by simp
qed

section \<open>The fallback route\<close>

text \<open>
  The distance of the fallback route is the constant 5200 whatever the endpoints are:
  for an origin and a destination at the same point, where a great-circle and a planar
  distance are both 0, and for the two points of the examples, which lie apart.
\<close>

theorem fallback_distance_is_constant:
  "map distance_route (snd (calculateRoute_fallback RoutingFailed False
                              (Some example_origin) (Some example_origin))) = [5200]
   \<and> spec_great_circle_distance (coordinates_loc example_origin) (coordinates_loc example_origin) = 0
   \<and> spec_planar_distance (coordinates_loc example_origin) (coordinates_loc example_origin) = 0
   \<and> map distance_route (snd (calculateRoute_fallback RoutingFailed False
                                (Some example_origin) (Some example_destination))) = [5200]
   \<and> spec_planar_distance (coordinates_loc example_origin) (coordinates_loc example_destination) \<noteq> 0"
  by (simp add: calculateRoute_fallback_def mockRoute_fallback_def spec_great_circle_distance_def
        spec_planar_distance_def example_origin_def example_destination_def)

text \<open>
  C2, as the fallback panel has it. With origin and destination set, the panel calls
  \<open>onRouteCalculated\<close> exactly once whatever the provider does. When the request fails,
  the answer has no routes or its first route has no leg, the route handed over is the
  fixed mock route: id \<open>route-1\<close>, distance 5200, duration 780, a geometry of four points
  (the origin; the origin with the double 0.01 added to both coordinates in double
  arithmetic; the destination with it subtracted from both; the destination), and the
  single step \<open>step-1\<close>, "Head towards destination", from origin to destination.
\<close>

theorem fallback_route_is_fixed_mock:
  assumes "resp = RoutingFailed \<or> resp = RoutingData code None \<or> resp = RoutingData code (Some [])
           \<or> (resp = RoutingData code (Some (routeData # rest)) \<and> legs routeData = [])"
  shows "calculateRoute_fallback resp calculating (Some orig) (Some dest) =
           (False,
            [\<lparr>id_route = ''route-1'', origin_route = orig, destination_route = dest,
              distance_route = 5200, duration_route = 780,
              steps = [\<lparr>id_step = ''step-1'', instruction = ''Head towards destination'',
                        distance_step = 5200, duration_step = 780,
                        coordinates_step = [coordinates_loc orig, coordinates_loc dest]\<rparr>],
              geometry = [coordinates_loc orig,
                          (double_plus (fst (coordinates_loc orig)) (to_double (1 / 100)),
                           double_plus (snd (coordinates_loc orig)) (to_double (1 / 100))),
                          (double_minus (fst (coordinates_loc dest)) (to_double (1 / 100)),
                           double_minus (snd (coordinates_loc dest)) (to_double (1 / 100))),
                          coordinates_loc dest]\<rparr>])
         \<and> length (snd (calculateRoute_fallback any calculating (Some orig) (Some dest))) = 1"
proof -
  have one: "length (snd (calculateRoute_fallback any calculating (Some orig) (Some dest))) = 1"
    by (simp add: calculateRoute_fallback_def
             split: routing_response.split option.split list.split)
  from assms one show ?thesis
    by (auto simp add: calculateRoute_fallback_def mockRoute_fallback_def calculatedRoute_def)
qed

text \<open>
  The mock route between two places whose coordinates are doubles. The inner points are
  the doubles that JavaScript prints as \<open>-73.99\<close>, \<open>40.51\<close>, \<open>-73.76\<close> and \<open>40.74\<close>; the
  third of them is not the exact difference \<open>-73.75 - 1/100\<close>. A sum of doubles need
  not be the double nearest to the decimal sum: for the longitude \<open>-73.9\<close> the source's
  \<open>-73.9 - 0.01\<close> is the double printed as \<open>-73.91000000000001\<close>, the neighbour of the
  double \<open>-73.91\<close>.
\<close>

theorem fallback_route_is_fixed_mock_witness:
  "snd (calculateRoute_fallback (RoutingData ''NoRoute'' None) False
          (Some example_start) (Some example_end))
     = [mockRoute_fallback example_start example_end]
   \<and> geometry (mockRoute_fallback example_start example_end)
     = [(-74, 81 / 2),
        (- 5206583381705359 / 2 ^ 46, 5701275653274337 / 2 ^ 47),
        (- 5190398570544497 / 2 ^ 46, 5733645275596063 / 2 ^ 47),
        (- (295 / 4), 163 / 4)]
   \<and> - 5190398570544497 / 2 ^ 46 \<noteq> (- (295 / 4) - 1 / 100 :: real)
   \<and> double_minus (to_double (- 73.9)) (to_double (1 / 100)) = - 5200953882171147 / 2 ^ 46
   \<and> to_double (- 73.91) = - 5200953882171146 / 2 ^ 46
   \<and> map distance_route (snd (calculateRoute_fallback (RoutingData ''NoRoute'' None) False
                                (Some example_start) (Some example_end))) = [5200]
   \<and> length (snd (calculateRoute_fallback (RoutingData ''Ok'' (Some [example_osrm_route])) False
                    (Some example_start) (Some example_end))) = 1"
proof -
  have p1: "double_plus (- 74) (to_double (1 / 100)) = - 5206583381705359 / 2 ^ 46"
    unfolding double_plus_def literal_one_hundredth
    by (subst to_double_eval [of 6]) (simp_all add: pow2_def round_ties_even_def Let_def)
  have p2: "double_plus (81 / 2) (to_double (1 / 100)) = 5701275653274337 / 2 ^ 47"
    unfolding double_plus_def literal_one_hundredth
    by (subst to_double_eval [of 5]) (simp_all add: pow2_def round_ties_even_def Let_def)
  have p3: "double_minus (- (295 / 4)) (to_double (1 / 100)) = - 5190398570544497 / 2 ^ 46"
    unfolding double_minus_def literal_one_hundredth
    by (subst to_double_eval [of 6]) (simp_all add: pow2_def round_ties_even_def Let_def)
  have p4: "double_minus (163 / 4) (to_double (1 / 100)) = 5733645275596063 / 2 ^ 47"
    unfolding double_minus_def literal_one_hundredth
    by (subst to_double_eval [of 5]) (simp_all add: pow2_def round_ties_even_def Let_def)
  have g: "geometry (mockRoute_fallback example_start example_end)
     = [(-74, 81 / 2),
        (- 5206583381705359 / 2 ^ 46, 5701275653274337 / 2 ^ 47),
        (- 5190398570544497 / 2 ^ 46, 5733645275596063 / 2 ^ 47),
        (- (295 / 4), 163 / 4)]"
    unfolding mockRoute_fallback_def example_start_def example_end_def
    by (simp add: p1 p2 p3 p4 del: of_int_numeral)
  have m: "snd (calculateRoute_fallback (RoutingData ''NoRoute'' None) False
          (Some example_start) (Some example_end))
     = [mockRoute_fallback example_start example_end]"
    by (simp add: calculateRoute_fallback_def)
  have d: "distance_route (mockRoute_fallback example_start example_end) = 5200"
    by (simp add: mockRoute_fallback_def)
  have h: "RoutingData ''NoRoute'' None = RoutingFailed
           \<or> RoutingData ''NoRoute'' None = RoutingData ''NoRoute'' None
           \<or> RoutingData ''NoRoute'' None = RoutingData ''NoRoute'' (Some [])
           \<or> (RoutingData ''NoRoute'' None = RoutingData ''NoRoute'' (Some (example_osrm_route # []))
               \<and> legs example_osrm_route = [])"
    by simp
  have n: "- 5190398570544497 / 2 ^ 46 \<noteq> (- (295 / 4) - 1 / 100 :: real)"
    by simp
  have q1: "to_double (- 73.9) = - 2600125097364685 / 2 ^ 45"
    by (subst to_double_eval [of 6]) (simp_all add: pow2_def round_ties_even_def Let_def)
  have q2: "double_minus (to_double (- 73.9)) (to_double (1 / 100)) = - 5200953882171147 / 2 ^ 46"
    unfolding double_minus_def literal_one_hundredth q1
    by (subst to_double_eval [of 6]) (simp_all add: pow2_def round_ties_even_def Let_def)
  have q3: "to_double (- 73.91) = - 5200953882171146 / 2 ^ 46"
    by (subst to_double_eval [of 6]) (simp_all add: pow2_def round_ties_even_def Let_def)
  show ?thesis
    using fallback_route_is_fixed_mock
            [OF h, of False example_start example_end
                "RoutingData ''Ok'' (Some [example_osrm_route])"] n
    unfolding g m q2 q3 by (simp add: d)
qed

section \<open>A click on the map\<close>

text \<open>
  When the reverse lookup fails, the name of the selected location is the fixed text
  "Selected Location"; only the address is the coordinate pair with six decimals,
  latitude first. The Mapbox revision selects nothing when the lookup fails or finds
  no feature.
\<close>

theorem click_name_is_fixed_text:
  "map name_loc (map_on_click 1730000000000 40.71 (-74) ReverseFailed) = [''Selected Location'']
   \<and> map address_loc (map_on_click 1730000000000 40.71 (-74) ReverseFailed) = [''40.710000, -74.000000'']
   \<and> map name_loc (map_on_click 1730000000000 40.71 (-74) (ReverseData None)) = [''Selected Location'']
   \<and> map_on_click_mapbox 1730000000000 40.71 (-74) MapboxFailed = []
   \<and> map_on_click_mapbox 1730000000000 40.71 (-74) (MapboxData (Some [])) = []"
  by (simp add: map_on_click_def map_on_click_mapbox_def coordinate_label_def toFixed6_def
        opt_or_else_def)

text \<open>
  C3, as the click handlers have it. In the Leaflet revision every click selects exactly
  one location, with coordinates \<open>[lng, lat]\<close> exactly as clicked; when the lookup fails,
  returns \<open>null\<close> or has no (or an empty) \<open>display_name\<close>, its name is "Selected Location"
  and its address is \<open>lat.toFixed(6)\<close>, a comma and a blank, \<open>lng.toFixed(6)\<close>. In the
  Mapbox revision a selected location has the clicked coordinates too, but nothing is
  selected when the lookup fails or returns no feature.
\<close>

theorem click_selects_exact_coordinates:
  "map coordinates_loc (map_on_click now lat lng resp) = [(lng, lat)]
   \<and> (resp = ReverseFailed \<or> resp = ReverseNull \<or> resp = ReverseData None \<or> resp = ReverseData (Some [])
        \<longrightarrow> map name_loc (map_on_click now lat lng resp) = [''Selected Location'']
            \<and> map address_loc (map_on_click now lat lng resp) = [toFixed6 lat @ '', '' @ toFixed6 lng])
   \<and> (\<forall>loc \<in> set (map_on_click_mapbox now lat lng mresp). coordinates_loc loc = (lng, lat))
   \<and> (mresp = MapboxFailed \<or> mresp = MapboxNull \<or> mresp = MapboxData None \<or> mresp = MapboxData (Some [])
        \<longrightarrow> map_on_click_mapbox now lat lng mresp = [])"
proof -
  have a: "map coordinates_loc (map_on_click now lat lng resp) = [(lng, lat)]"
    by (cases resp) (simp_all add: map_on_click_def)
  have b: "map name_loc (map_on_click now lat lng resp) = [''Selected Location'']
            \<and> map address_loc (map_on_click now lat lng resp) = [toFixed6 lat @ '', '' @ toFixed6 lng]"
    if "resp = ReverseFailed \<or> resp = ReverseNull \<or> resp = ReverseData None \<or> resp = ReverseData (Some [])"
    using that
    by (auto simp add: map_on_click_def opt_or_else_def or_else_def split_comma_first_def
          coordinate_label_def)
  have c: "\<forall>loc \<in> set (map_on_click_mapbox now lat lng mresp). coordinates_loc loc = (lng, lat)"
    by (auto simp add: map_on_click_mapbox_def Let_def
             split: mapbox_response.splits option.splits list.splits)
  have d: "map_on_click_mapbox now lat lng mresp = []"
    if "mresp = MapboxFailed \<or> mresp = MapboxNull \<or> mresp = MapboxData None \<or> mresp = MapboxData (Some [])"
    using that by (auto simp add: map_on_click_mapbox_def)
  from a b c d show ?thesis by blast
qed

theorem click_selects_exact_coordinates_witness:
  "map_on_click 1730000000000 40.71 (-74) ReverseNull =
     [\<lparr>id_loc = ''1730000000000'', name_loc = ''Selected Location'',
       address_loc = ''40.710000, -74.000000'', coordinates_loc = (-74, 40.71)\<rparr>]
   \<and> map_on_click_mapbox 1730000000000 40.71 (-74) MapboxNull = []
   \<and> map coordinates_loc (map_on_click_mapbox 1730000000000 40.71 (-74)
         (MapboxData (Some [\<lparr>text_feature = Some ''Broadway'', place_name = None\<rparr>]))) = [(-74, 40.71)]"
proof -
  have e: "map_on_click 1730000000000 40.71 (-74) ReverseNull =
     [\<lparr>id_loc = ''1730000000000'', name_loc = ''Selected Location'',
       address_loc = ''40.710000, -74.000000'', coordinates_loc = (-74, 40.71)\<rparr>]"
    by (simp add: map_on_click_def coordinate_label_def toFixed6_def)
  have m: "map_on_click_mapbox 1730000000000 40.71 (-74)
         (MapboxData (Some [\<lparr>text_feature = Some ''Broadway'', place_name = None\<rparr>]))
       = [\<lparr>id_loc = ''1730000000000'', name_loc = ''Broadway'',
           address_loc = ''40.710000, -74.000000'', coordinates_loc = (-74, 40.71)\<rparr>]"
    by (simp add: map_on_click_mapbox_def coordinate_label_def toFixed6_def opt_or_else_def
          or_else_def)
  show ?thesis
    using click_selects_exact_coordinates
            [of 1730000000000 "40.71" "-74" ReverseNull
                "MapboxData (Some [\<lparr>text_feature = Some ''Broadway'', place_name = None\<rparr>])"]
          click_selects_exact_coordinates
            [of 1730000000000 "40.71" "-74" ReverseNull MapboxNull]
    unfolding e m by simp
qed

section \<open>Routes handed to the page\<close>

lemma digits_small: "n < 10 \<Longrightarrow> digits n = [digit_char n]"
  by (simp add: digits.simps)

lemma length_map_index [simp]: "length (map_index f xs) = length xs"
  by (simp add: map_index_def)

lemma nth_map_index: "i < length xs \<Longrightarrow> map_index f xs ! i = f (xs ! i) i"
  by (simp add: map_index_def nth_enumerate_eq)

lemma step_ids:
  "map id_step (map_index toRouteStep leg) = map (\<lambda>i. ''step-'' @ digits i) [0..<length leg]"
  by (rule nth_equalityI) (simp_all add: nth_map_index toRouteStep_def)

lemma step_distances:
  "map distance_step (map_index toRouteStep leg) = map distance_osrm_step leg"
  by (rule nth_equalityI) (simp_all add: nth_map_index toRouteStep_def)

lemma step_durations:
  "map duration_step (map_index toRouteStep leg) = map duration_osrm_step leg"
  by (rule nth_equalityI) (simp_all add: nth_map_index toRouteStep_def)

lemma example_route_calculated:
  "calculatedRoute example_origin example_destination example_osrm_route = Some example_route"
  by (simp add: calculatedRoute_def example_osrm_route_def example_route_def map_index_def
        toRouteStep_def opt_or_else_def or_else_def enumerate_eq_zip upt_rec digits_small
        digit_char_def)

text \<open>
  A route built from a provider answer carries the provider's geometry: its first point
  is the provider's, here a point next to the origin. The steps of the mock routes are
  numbered from 1.
\<close>

theorem provider_geometry_not_at_origin:
  "map geometry (snd (calculateRoute_fallback (RoutingData ''Ok'' (Some [example_osrm_route])) False
                        (Some example_origin) (Some example_destination)))
     = [[(-74.001, 40.701), (-73.901, 40.799)]]
   \<and> coordinates_loc example_origin = (-74, 40.7)
   \<and> coordinates_loc example_destination = (-73.9, 40.8)
   \<and> map id_step (steps (mockRoute example_origin example_destination))
     = [''step-1'', ''step-2'', ''step-3'']
   \<and> map id_step (steps (mockRoute_fallback example_origin example_destination)) = [''step-1'']"
  by (simp add: calculateRoute_fallback_def calculatedRoute_def example_osrm_route_def
        example_origin_def example_destination_def mockRoute_def mockRoute_fallback_def Let_def)

text \<open>
  C5, as the panels have it. A route built from a provider answer has the provider's
  geometry unchanged, the given origin and destination, and one step for each step of
  the first leg, with the ids \<open>step-0\<close>, \<open>step-1\<close>, ... in the provider's order and the
  provider's distances and durations. Every route the fallback panel hands over is
  either such a route or the mock route. The mock routes of the two mock-building
  panels start at \<open>origin.coordinates\<close>, end at \<open>destination.coordinates\<close> and have a
  non-empty list of steps.
\<close>

theorem route_shape:
  "(calculatedRoute orig dest routeData = Some r \<longrightarrow>
      (\<exists>leg rest. legs routeData = leg # rest
         \<and> map id_step (steps r) = map (\<lambda>i. ''step-'' @ digits i) [0..<length leg]
         \<and> map distance_step (steps r) = map distance_osrm_step leg
         \<and> map duration_step (steps r) = map duration_osrm_step leg)
      \<and> geometry r = geometry_osrm routeData
      \<and> origin_route r = orig \<and> destination_route r = dest)
   \<and> (r' \<in> set (snd (calculateRoute_fallback resp calculating (Some orig) (Some dest))) \<longrightarrow>
        r' = mockRoute_fallback orig dest
        \<or> (\<exists>code routeData rest. resp = RoutingData code (Some (routeData # rest))
              \<and> calculatedRoute orig dest routeData = Some r'))
   \<and> hd (geometry (mockRoute_fallback orig dest)) = coordinates_loc orig
   \<and> last (geometry (mockRoute_fallback orig dest)) = coordinates_loc dest
   \<and> steps (mockRoute_fallback orig dest) \<noteq> []
   \<and> snd (calculateRoute_mock calculating (Some orig) (Some dest)) = [mockRoute orig dest]
   \<and> hd (geometry (mockRoute orig dest)) = coordinates_loc orig
   \<and> last (geometry (mockRoute orig dest)) = coordinates_loc dest
   \<and> steps (mockRoute orig dest) \<noteq> []"
proof -
  have a: "(\<exists>leg rest. legs routeData = leg # rest
         \<and> map id_step (steps r) = map (\<lambda>i. ''step-'' @ digits i) [0..<length leg]
         \<and> map distance_step (steps r) = map distance_osrm_step leg
         \<and> map duration_step (steps r) = map duration_osrm_step leg)
      \<and> geometry r = geometry_osrm routeData
      \<and> origin_route r = orig \<and> destination_route r = dest"
    if "calculatedRoute orig dest routeData = Some r"
    using that
    by (auto simp add: calculatedRoute_def step_ids step_distances step_durations
             split: list.splits)
  have b: "r' = mockRoute_fallback orig dest
        \<or> (\<exists>code routeData rest. resp = RoutingData code (Some (routeData # rest))
              \<and> calculatedRoute orig dest routeData = Some r')"
    if "r' \<in> set (snd (calculateRoute_fallback resp calculating (Some orig) (Some dest)))"
    using that
    by (auto simp add: calculateRoute_fallback_def
             split: routing_response.splits option.splits list.splits)
  have c: "hd (geometry (mockRoute_fallback orig dest)) = coordinates_loc orig
   \<and> last (geometry (mockRoute_fallback orig dest)) = coordinates_loc dest
   \<and> steps (mockRoute_fallback orig dest) \<noteq> []"
    by (simp add: mockRoute_fallback_def)
  have d: "snd (calculateRoute_mock calculating (Some orig) (Some dest)) = [mockRoute orig dest]
   \<and> hd (geometry (mockRoute orig dest)) = coordinates_loc orig
   \<and> last (geometry (mockRoute orig dest)) = coordinates_loc dest
   \<and> steps (mockRoute orig dest) \<noteq> []"
    by (simp add: mockRoute_def calculateRoute_mock_def Let_def)
  from a b c d show ?thesis by blast
qed

theorem route_shape_witness:
  "calculatedRoute example_origin example_destination example_osrm_route = Some example_route
   \<and> map id_step (steps example_route) = [''step-0'', ''step-1'']
   \<and> map instruction (steps example_route) = [''Head north'', ''Step 2'']
   \<and> geometry example_route = [(-74.001, 40.701), (-73.901, 40.799)]
   \<and> snd (calculateRoute_fallback (RoutingData ''Ok'' (Some [example_osrm_route])) False
            (Some example_origin) (Some example_destination))
     = [example_route]"
proof -
  have f: "snd (calculateRoute_fallback (RoutingData ''Ok'' (Some [example_osrm_route])) False
            (Some example_origin) (Some example_destination))
     = [example_route]"
    by (simp add: calculateRoute_fallback_def example_route_calculated)
  have g: "map instruction (steps example_route) = [''Head north'', ''Step 2'']
           \<and> geometry example_route = [(-74.001, 40.701), (-73.901, 40.799)]"
    by (simp add: example_route_def)
  have l: "length (steps example_route) = 2"
    by (simp add: example_route_def)
  show ?thesis
    using route_shape [of example_origin example_destination example_osrm_route example_route
                          example_route "RoutingData ''Ok'' (Some [example_osrm_route])" False]
          example_route_calculated f g
    by (auto simp add: example_osrm_route_def upt_rec digits_small digit_char_def)
qed

section \<open>Layers on the Leaflet map\<close>

text \<open>
  \<open>tracked\<close> holds at the start and after every event, so \<open>clearMarkers\<close> leaves the tile
  layer alone on the map.
\<close>

lemma remove_all_tracked:
  "set pre \<inter> set xs = {} \<Longrightarrow> foldl (\<lambda>ls l. remove1 l ls) (pre @ xs) xs = pre"
proof (induction xs arbitrary: pre)
  case Nil
  then show ?case by simp
next
  case (Cons x xs)
  from Cons.prems have "x \<notin> set pre" and "set pre \<inter> set xs = {}" by auto
  then show ?case using Cons.IH [of pre] by (simp add: remove1_append)
qed

lemma layers_foldl_removeLayer:
  "foldl (\<lambda>m marker. removeLayer marker m) m xs
     = m\<lparr>layers := foldl (\<lambda>ls l. remove1 l ls) (layers m) xs\<rparr>"
  by (induction xs arbitrary: m) (simp_all add: removeLayer_def)

lemma clearMarkers_tracked:
  assumes "tracked mv"
  shows "clearMarkers mv
           = mv\<lparr>mapRef := map_option (\<lambda>m. m\<lparr>layers := [TileLayer]\<rparr>) (mapRef mv), markersRef := []\<rparr>"
proof (cases "mapRef mv")
  case None
  then show ?thesis by (simp add: clearMarkers_def)
next
  case (Some m)
  with assms have l: "layers m = [TileLayer] @ markersRef mv"
    and d: "set [TileLayer] \<inter> set (markersRef mv) = {}"
    by (simp_all add: tracked_def)
  show ?thesis
    using remove_all_tracked [OF d]
    by (simp add: clearMarkers_def Some layers_foldl_removeLayer l)
qed

lemma tracked_init: "tracked map_view_init"
  by (simp add: tracked_def map_view_init_def)

lemma tracked_isLoadingLocation [simp]: "tracked (mv\<lparr>isLoadingLocation := b\<rparr>) = tracked mv"
  by (simp add: tracked_def split: option.split)

lemma tracked_initializeMap: "tracked mv \<Longrightarrow> tracked (initializeMap mv)"
  by (auto simp add: tracked_def initializeMap_def split: option.splits)

lemma tracked_setView: "tracked mv \<Longrightarrow> tracked (setView c z mv)"
  by (auto simp add: tracked_def setView_def split: option.splits)

lemma tracked_zoomEffect: "tracked mv \<Longrightarrow> tracked (zoomEffect z mv)"
  by (cases z) (simp_all add: zoomEffect_def tracked_setView)

lemma selectedLocationEffect_tracked:
  assumes "tracked mv" and "mapRef mv = Some m"
  shows "selectedLocationEffect (Some loc) mv
           = mv\<lparr>mapRef := Some (m\<lparr>viewport := View (snd (coordinates_loc loc), fst (coordinates_loc loc)) 15,
                                  layers := [TileLayer,
                                             Marker Selected (snd (coordinates_loc loc), fst (coordinates_loc loc))
                                               (name_loc loc)]\<rparr>),
                markersRef := [Marker Selected (snd (coordinates_loc loc), fst (coordinates_loc loc))
                                 (name_loc loc)]\<rparr>"
  using assms(2)
  by (simp add: selectedLocationEffect_def clearMarkers_tracked [OF assms(1)] setView_def addTo_def Let_def)

lemma tracked_selectedLocationEffect:
  assumes "tracked mv"
  shows "tracked (selectedLocationEffect sel mv)"
proof (cases "sel = None \<or> mapRef mv = None")
  case True
  with assms show ?thesis
    by (auto simp add: selectedLocationEffect_def split: option.splits)
next
  case False
  then obtain loc m where sel: "sel = Some loc" and m: "mapRef mv = Some m" by auto
  show ?thesis
    unfolding sel selectedLocationEffect_tracked [OF assms m]
    by (simp add: tracked_def)
qed

lemma tracked_currentLocationEffect: "tracked mv \<Longrightarrow> tracked (currentLocationEffect cur mv)"
  by (auto simp add: tracked_def currentLocationEffect_def addTo_def Let_def split: option.splits)

lemma tracked_routeEffect: "tracked mv \<Longrightarrow> tracked (routeEffect r mv)"
  by (auto simp add: tracked_def routeEffect_def addTo_def Let_def split: option.splits)

lemma tracked_getCurrentLocation: "tracked mv \<Longrightarrow> tracked (fst (getCurrentLocation geo mv))"
proof (cases geo)
  case (PositionFound c r)
  assume "tracked mv"
  then have "tracked (setView (snd c, fst c) 15 mv)" by (rule tracked_setView)
  then show ?thesis
    by (cases r) (simp_all add: getCurrentLocation_def PositionFound)
qed (simp_all add: getCurrentLocation_def)

lemma tracked_selectLocation:
  "tracked (view a) \<Longrightarrow> tracked (view (selectLocation render obj loc a))"
  by (simp add: selectLocation_def Let_def tracked_selectedLocationEffect)

lemma tracked_foundCurrentLocation: "tracked (view a) \<Longrightarrow> tracked (view (foundCurrentLocation loc a))"
  by (simp add: foundCurrentLocation_def Let_def tracked_currentLocationEffect)

lemma tracked_foldl_select:
  "tracked (view a) \<Longrightarrow>
   tracked (view (foldl (\<lambda>a loc. selectLocation render (nextRef a) loc a) a locs))"
  by (induction locs arbitrary: a) (simp_all add: tracked_selectLocation)

lemma tracked_foldl_found:
  "tracked (view a) \<Longrightarrow> tracked (view (foldl (\<lambda>a loc. foundCurrentLocation loc a) a locs))"
  by (induction locs arbitrary: a) (simp_all add: tracked_foundCurrentLocation)

lemma tracked_app_step: "tracked (view a) \<Longrightarrow> tracked (view (app_step e a))"
proof (cases e)
  case (UseMyLocation geo)
  assume t: "tracked (view a)"
  obtain mv found toasts where g: "getCurrentLocation geo (view a) = (mv, found, toasts)"
    by (cases "getCurrentLocation geo (view a)") auto
  from t have "tracked (fst (getCurrentLocation geo (view a)))" by (rule tracked_getCurrentLocation)
  with g have "tracked (view (a\<lparr>view := mv\<rparr>))" by simp
  then show ?thesis
    by (simp add: app_step_def UseMyLocation g tracked_foldl_found)
qed (simp_all add: app_step_def Let_def tracked_initializeMap tracked_foldl_select
       tracked_selectLocation tracked_routeEffect tracked_zoomEffect)

lemma tracked_app_run: "tracked (view (app_run es app_init))"
proof -
  have "tracked (view a) \<Longrightarrow> tracked (view (foldl (\<lambda>a e. app_step e a) a es))" for a
    by (induction es arbitrary: a) (simp_all add: tracked_app_step)
  then show ?thesis
    by (simp add: app_run_def app_init_def tracked_init)
qed

text \<open>
  \<open>one_selected\<close> holds at the start and after every event: the only effect that adds a
  marker of the selected location clears the recorded layers first.
\<close>

lemma one_selected_init: "one_selected map_view_init"
  by (simp add: one_selected_def map_view_init_def)

lemma one_selected_isLoadingLocation [simp]:
  "one_selected (mv\<lparr>isLoadingLocation := b\<rparr>) = one_selected mv"
  by (simp add: one_selected_def)

lemma one_selected_initializeMap: "one_selected mv \<Longrightarrow> one_selected (initializeMap mv)"
  by (simp add: one_selected_def initializeMap_def)

lemma one_selected_setView: "one_selected mv \<Longrightarrow> one_selected (setView c z mv)"
  by (simp add: one_selected_def setView_def)

lemma one_selected_zoomEffect: "one_selected mv \<Longrightarrow> one_selected (zoomEffect z mv)"
  by (cases z) (simp_all add: zoomEffect_def one_selected_setView)

lemma one_selected_selectedLocationEffect:
  assumes "tracked mv" and "one_selected mv"
  shows "one_selected (selectedLocationEffect sel mv)"
proof (cases "sel = None \<or> mapRef mv = None")
  case True
  with assms(2) show ?thesis
    by (auto simp add: selectedLocationEffect_def split: option.splits)
next
  case False
  then obtain loc m where sel: "sel = Some loc" and m: "mapRef mv = Some m" by auto
  show ?thesis
    unfolding sel selectedLocationEffect_tracked [OF assms(1) m]
    by (simp add: one_selected_def)
qed

lemma one_selected_currentLocationEffect:
  "one_selected mv \<Longrightarrow> one_selected (currentLocationEffect cur mv)"
  by (auto simp add: one_selected_def currentLocationEffect_def Let_def split: option.splits)

lemma one_selected_routeEffect: "one_selected mv \<Longrightarrow> one_selected (routeEffect r mv)"
  by (auto simp add: one_selected_def routeEffect_def Let_def split: option.splits)

lemma one_selected_getCurrentLocation:
  "one_selected mv \<Longrightarrow> one_selected (fst (getCurrentLocation geo mv))"
proof (cases geo)
  case (PositionFound c r)
  assume "one_selected mv"
  then have "one_selected (setView (snd c, fst c) 15 mv)" by (rule one_selected_setView)
  then show ?thesis
    by (cases r) (simp_all add: getCurrentLocation_def PositionFound)
qed (simp_all add: getCurrentLocation_def)

lemma layers_selectLocation:
  assumes "tracked (view a) \<and> one_selected (view a)"
  shows "tracked (view (selectLocation render obj loc a))
         \<and> one_selected (view (selectLocation render obj loc a))"
  using assms
  by (simp add: selectLocation_def Let_def tracked_selectedLocationEffect
        one_selected_selectedLocationEffect)

lemma layers_foundCurrentLocation:
  assumes "tracked (view a) \<and> one_selected (view a)"
  shows "tracked (view (foundCurrentLocation loc a))
         \<and> one_selected (view (foundCurrentLocation loc a))"
  using assms
  by (simp add: foundCurrentLocation_def Let_def tracked_currentLocationEffect
        one_selected_currentLocationEffect)

lemma layers_foldl_select:
  "tracked (view a) \<and> one_selected (view a) \<Longrightarrow>
   tracked (view (foldl (\<lambda>a loc. selectLocation render (nextRef a) loc a) a locs))
   \<and> one_selected (view (foldl (\<lambda>a loc. selectLocation render (nextRef a) loc a) a locs))"
proof (induction locs arbitrary: a)
  case Nil
  then show ?case by simp
next
  case (Cons loc locs)
  from Cons.prems have "tracked (view (selectLocation render (nextRef a) loc a))
         \<and> one_selected (view (selectLocation render (nextRef a) loc a))"
    by (rule layers_selectLocation)
  then show ?case using Cons.IH by simp
qed

lemma layers_foldl_found:
  "tracked (view a) \<and> one_selected (view a) \<Longrightarrow>
   tracked (view (foldl (\<lambda>a loc. foundCurrentLocation loc a) a locs))
   \<and> one_selected (view (foldl (\<lambda>a loc. foundCurrentLocation loc a) a locs))"
proof (induction locs arbitrary: a)
  case Nil
  then show ?case by simp
next
  case (Cons loc locs)
  from Cons.prems have "tracked (view (foundCurrentLocation loc a))
         \<and> one_selected (view (foundCurrentLocation loc a))"
    by (rule layers_foundCurrentLocation)
  then show ?case using Cons.IH by simp
qed

lemma layers_app_step:
  assumes "tracked (view a) \<and> one_selected (view a)"
  shows "tracked (view (app_step e a)) \<and> one_selected (view (app_step e a))"
proof (cases e)
  case (UseMyLocation geo)
  obtain mv found toasts where g: "getCurrentLocation geo (view a) = (mv, found, toasts)"
    by (cases "getCurrentLocation geo (view a)") auto
  from assms have "tracked (fst (getCurrentLocation geo (view a)))
                   \<and> one_selected (fst (getCurrentLocation geo (view a)))"
    by (simp add: tracked_getCurrentLocation one_selected_getCurrentLocation)
  with g have "tracked (view (a\<lparr>view := mv\<rparr>)) \<and> one_selected (view (a\<lparr>view := mv\<rparr>))" by simp
  then show ?thesis
    using layers_foldl_found [of "a\<lparr>view := mv\<rparr>" found]
    by (simp add: app_step_def UseMyLocation g)
next
  case (MapClick now lat lng resp)
  with assms layers_foldl_select [OF assms, of index_init "map_on_click now lat lng resp"]
  show ?thesis by (simp add: app_step_def)
next
  case (SearchPick loc)
  with assms layers_selectLocation [OF assms] show ?thesis by (simp add: app_step_def)
next
  case (RecentClick obj loc)
  with assms layers_selectLocation [OF assms] show ?thesis by (simp add: app_step_def)
qed (use assms in \<open>simp_all add: app_step_def Let_def tracked_initializeMap tracked_routeEffect
       tracked_zoomEffect one_selected_initializeMap one_selected_routeEffect
       one_selected_zoomEffect\<close>)

lemma layers_app_run:
  "tracked (view (app_run es app_init)) \<and> one_selected (view (app_run es app_init))"
proof -
  have "tracked (view a) \<and> one_selected (view a) \<Longrightarrow>
        tracked (view (foldl (\<lambda>a e. app_step e a) a es))
        \<and> one_selected (view (foldl (\<lambda>a e. app_step e a) a es))" for a
  proof (induction es arbitrary: a)
    case Nil
    then show ?case by simp
  next
    case (Cons e es)
    from Cons.prems have "tracked (view (app_step e a)) \<and> one_selected (view (app_step e a))"
      by (rule layers_app_step)
    then show ?case using Cons.IH by simp
  qed
  then show ?thesis
    by (simp add: app_run_def app_init_def tracked_init one_selected_init)
qed

lemma at_most_one_selected_marker:
  "length (markers_of Selected (app_run es app_init)) \<le> 1"
proof (cases "mapRef (view (app_run es app_init))")
  case None
  then show ?thesis by (simp add: markers_of_def)
next
  case (Some m)
  with layers_app_run [of es] show ?thesis
    by (simp add: markers_of_def tracked_def one_selected_def)
qed

text \<open>The identity of the selected object is one that is in use, so a new object differs
  from it.\<close>

lemma refs_used_selectLocation: "refs_used (selectLocation render obj loc a)"
  by (simp add: refs_used_def selectLocation_def Let_def)

lemma refs_used_foldl_select:
  "refs_used a \<Longrightarrow> refs_used (foldl (\<lambda>a loc. selectLocation render (nextRef a) loc a) a locs)"
  by (induction locs arbitrary: a) (simp_all add: refs_used_selectLocation)

lemma refs_foundCurrentLocation [simp]:
  "selectedRef (foundCurrentLocation loc a) = selectedRef a"
  "nextRef (foundCurrentLocation loc a) = nextRef a"
  by (simp_all add: foundCurrentLocation_def Let_def)

lemma refs_foldl_found [simp]:
  "selectedRef (foldl (\<lambda>a loc. foundCurrentLocation loc a) a locs) = selectedRef a"
  "nextRef (foldl (\<lambda>a loc. foundCurrentLocation loc a) a locs) = nextRef a"
  by (induction locs arbitrary: a) simp_all

lemma refs_used_app_step: "refs_used a \<Longrightarrow> refs_used (app_step e a)"
proof (cases e)
  case (UseMyLocation geo)
  assume "refs_used a"
  then show ?thesis
    by (cases "getCurrentLocation geo (view a)")
       (simp add: app_step_def UseMyLocation refs_used_def split: option.splits)
qed (simp_all add: app_step_def Let_def refs_used_selectLocation refs_used_foldl_select,
     simp_all add: refs_used_def split: option.splits)

lemma refs_used_app_run: "refs_used (app_run es app_init)"
proof -
  have "refs_used a \<Longrightarrow> refs_used (foldl (\<lambda>a e. app_step e a) a es)" for a
    by (induction es arbitrary: a) (simp_all add: refs_used_app_step)
  then show ?thesis by (simp add: app_run_def app_init_def refs_used_def)
qed

lemma new_object_not_selected: "selectedRef (app_run es app_init) \<noteq> Some (nextRef (app_run es app_init))"
  using refs_used_app_run [of es] by (auto simp add: refs_used_def)

text \<open>What single events do to the page and to the map.\<close>

lemma run_ready: "app_run [MapReady] app_init =
  \<lparr>page = index_init,
   view = \<lparr>mapRef = Some \<lparr>viewport = View (40.7128, -74.0060) 10, layers = [TileLayer]\<rparr>,
           markersRef = [], isLoadingLocation = False, mapLoaded = True\<rparr>,
   selectedRef = None, nextRef = 0\<rparr>"
  by (simp add: app_run_def app_step_def app_init_def initializeMap_def map_view_init_def)

lemma step_fix:
  assumes "mapRef (view a) = Some m"
  shows "app_step (UseMyLocation (PositionFound c resp)) a =
    a\<lparr>page := (page a)\<lparr>currentLocation :=
              Some \<lparr>id_loc = ''current-location'', name_loc = ''Current Location'',
                    address_loc = (case resp of
                                     ReverseData dn \<Rightarrow>
                                       opt_or_else dn (coordinate_label (snd c) (fst c))
                                   | _ \<Rightarrow> coordinate_label (snd c) (fst c)),
                    coordinates_loc = c\<rparr>\<rparr>,
     view := (view a)\<lparr>mapRef := Some (m\<lparr>viewport := View (snd c, fst c) 15,
                                       layers := layers m @ [Marker Current (snd c, fst c) ''Current Location'']\<rparr>),
                   markersRef := markersRef (view a) @ [Marker Current (snd c, fst c) ''Current Location''],
                   isLoadingLocation := False\<rparr>\<rparr>"
  using assms
  by (cases resp)
     (simp_all add: app_step_def getCurrentLocation_def foundCurrentLocation_def
        handleCurrentLocationFound_def currentLocationEffect_def setView_def addTo_def Let_def)

lemma step_select:
  assumes "tracked (view a)" and "mapRef (view a) = Some m" and "selectedRef a \<noteq> Some obj"
  shows "selectLocation render obj loc a =
    a\<lparr>page := handleLocationSelect render loc (page a),
      view := (view a)
       \<lparr>mapRef := Some (m\<lparr>viewport := View (snd (coordinates_loc loc), fst (coordinates_loc loc)) 15,
                          layers := [TileLayer,
                                     Marker Selected (snd (coordinates_loc loc), fst (coordinates_loc loc))
                                       (name_loc loc)]\<rparr>),
        markersRef := [Marker Selected (snd (coordinates_loc loc), fst (coordinates_loc loc))
                         (name_loc loc)]\<rparr>,
      selectedRef := Some obj,
      nextRef := max (nextRef a) (Suc obj)\<rparr>"
proof -
  have "selectedLocation (handleLocationSelect render loc (page a)) = Some loc"
    by (simp add: handleLocationSelect_def Let_def)
  with assms(3) show ?thesis
    by (simp add: selectLocation_def Let_def selectedLocationEffect_tracked [OF assms(1,2)])
qed

lemma step_reselect:
  "selectedRef a = Some obj \<Longrightarrow> view (selectLocation render obj loc a) = view a"
  by (simp add: selectLocation_def Let_def)

lemma step_click:
  "mapRef (view a) = Some m \<Longrightarrow>
   app_step (MapClick now lat lng ReverseFailed) a =
     selectLocation index_init (nextRef a)
       \<lparr>id_loc = digits now, name_loc = ''Selected Location'',
         address_loc = coordinate_label lat lng, coordinates_loc = (lng, lat)\<rparr> a"
  by (simp add: app_step_def map_on_click_def)

lemma route_handleLocationSelect: "route (handleLocationSelect render loc s) = route s"
  by (simp add: handleLocationSelect_def Let_def)

lemma current_marker_added:
  assumes "mapRef (view a) = Some m"
  shows "markers_of Current (foundCurrentLocation loc a)
           = markers_of Current a
             @ [Marker Current (snd (coordinates_loc loc), fst (coordinates_loc loc)) ''Current Location'']"
  using assms
  by (simp add: markers_of_def foundCurrentLocation_def handleCurrentLocationFound_def
        currentLocationEffect_def addTo_def Let_def)

lemma page_selectLocation:
  "page (selectLocation render obj loc a) = handleLocationSelect render loc (page a)"
  by (simp add: selectLocation_def Let_def)

lemma page_foldl_select:
  "route (page (foldl (\<lambda>a loc. selectLocation render (nextRef a) loc a) a locs)) = route (page a)"
  by (induction locs arbitrary: a) (simp_all add: page_selectLocation route_handleLocationSelect)

lemma page_foldl_found:
  "route (page (foldl (\<lambda>a loc. foundCurrentLocation loc a) a locs)) = route (page a)"
  by (induction locs arbitrary: a)
     (simp_all add: foundCurrentLocation_def Let_def handleCurrentLocationFound_def)

lemma page_step_toggle: "page (app_step DirectionsToggle a) = handleDirectionsToggle (page a)"
  by (simp add: app_step_def Let_def)

lemma page_step_route: "page (app_step (RouteCalculated r) a) = handleRouteCalculated r (page a)"
  by (simp add: app_step_def Let_def)

lemma mapRef_routeEffect:
  "mapRef mv = Some m \<Longrightarrow>
   mapRef (routeEffect (Some r) mv)
     = Some (m\<lparr>viewport := Bounds (map (\<lambda>coord. (snd coord, fst coord)) (geometry r)),
                layers := layers m @ [Polyline (map (\<lambda>coord. (snd coord, fst coord)) (geometry r))]\<rparr>)"
  by (simp add: routeEffect_def addTo_def Let_def)

lemma view_step_toggle:
  "view (app_step DirectionsToggle a) = routeEffect (route (handleDirectionsToggle (page a))) (view a)"
  by (simp add: app_step_def Let_def)

lemma view_step_route:
  "view (app_step (RouteCalculated r) a) = routeEffect (route (handleRouteCalculated r (page a))) (view a)"
  by (simp add: app_step_def Let_def)

lemma ready_routeEffect: "mapRef mv \<noteq> None \<Longrightarrow> mapRef (routeEffect r mv) \<noteq> None"
  by (cases r) (auto simp add: routeEffect_def Let_def)

lemma ready_selectLocation:
  "mapRef (view a) = Some m \<Longrightarrow> mapRef (view (selectLocation render obj loc a)) \<noteq> None"
  by (simp add: selectLocation_def Let_def selectedLocationEffect_def clearMarkers_def
        setView_def handleLocationSelect_def)

lemma route_app_step:
  "route (page (app_step e a)) =
     (case e of
        DirectionsToggle \<Rightarrow> None
      | RouteCalculated r \<Rightarrow> Some r
      | _ \<Rightarrow> route (page a))"
proof (cases e)
  case (UseMyLocation geo)
  then show ?thesis
    by (cases "getCurrentLocation geo (view a)") (simp add: app_step_def page_foldl_found)
qed (simp_all add: app_step_def Let_def page_foldl_select page_selectLocation
       route_handleLocationSelect handleDirectionsToggle_def handleRouteCalculated_def
       handleStepClick_def zoomTimeout_def)

section \<open>Position fixes\<close>

text \<open>
  A second fix moves the viewport: after the first fix a current location exists and the
  map is centred on it; after the second fix the map is centred on the new position.
\<close>

theorem second_fix_recentres:
  "currentLocation (page (app_run [MapReady, example_fix] app_init)) = Some example_origin
   \<and> map_option viewport (mapRef (view (app_run [MapReady, example_fix] app_init)))
       = Some (View (40.7, -74) 15)
   \<and> map_option viewport (mapRef (view (app_run [MapReady, example_fix, example_fix2] app_init)))
       = Some (View (40.8, -73.9) 15)"
proof -
  have r: "app_run [MapReady, example_fix] app_init = app_step example_fix (app_run [MapReady] app_init)"
    and r2: "app_run [MapReady, example_fix, example_fix2] app_init
             = app_step example_fix2 (app_step example_fix (app_run [MapReady] app_init))"
    by (simp_all add: app_run_def)
  show ?thesis
    unfolding r r2
    by (simp add: run_ready example_fix_def example_fix2_def step_fix coordinate_label_origin
          example_origin_def)
qed

text \<open>
  C8, as the map view has it. On a map that is ready, every position fix sets
  \<open>currentLocation\<close> to a location at the fixed position, leaves \<open>route\<close> and
  \<open>selectedLocation\<close> as they are, adds one marker for the current location to the layers
  already on the map, and centres the viewport on the new position at zoom 15, whether or
  not a current location existed before.
\<close>

theorem every_fix_recentres:
  assumes "mapRef (view a) = Some m"
  shows "map_option coordinates_loc
           (currentLocation (page (app_step (UseMyLocation (PositionFound c resp)) a))) = Some c
       \<and> route (page (app_step (UseMyLocation (PositionFound c resp)) a)) = route (page a)
       \<and> selectedLocation (page (app_step (UseMyLocation (PositionFound c resp)) a))
           = selectedLocation (page a)
       \<and> mapRef (view (app_step (UseMyLocation (PositionFound c resp)) a))
           = Some (m\<lparr>viewport := View (snd c, fst c) 15,
                      layers := layers m @ [Marker Current (snd c, fst c) ''Current Location'']\<rparr>)"
proof -
  let ?a' = "app_step (UseMyLocation (PositionFound c resp)) a"
  note s = step_fix [OF assms, of c resp]
  have cur: "map_option coordinates_loc (currentLocation (page ?a')) = Some c"
    unfolding s by simp
  have keep: "route (page ?a') = route (page a)"
    "selectedLocation (page ?a') = selectedLocation (page a)"
    unfolding s by simp_all
  have map: "mapRef (view ?a')
           = Some (m\<lparr>viewport := View (snd c, fst c) 15,
                      layers := layers m @ [Marker Current (snd c, fst c) ''Current Location'']\<rparr>)"
    unfolding s by simp
  from cur keep map show ?thesis by simp
qed

theorem every_fix_recentres_witness:
  "mapRef (view (app_run [MapReady, example_fix] app_init))
     = Some \<lparr>viewport = View (40.7, -74) 15,
             layers = [TileLayer, Marker Current (40.7, -74) ''Current Location'']\<rparr>
   \<and> mapRef (view (app_step example_fix2 (app_run [MapReady, example_fix] app_init)))
     = Some \<lparr>viewport = View (40.8, -73.9) 15,
             layers = [TileLayer, Marker Current (40.7, -74) ''Current Location'',
                       Marker Current (40.8, -73.9) ''Current Location'']\<rparr>
   \<and> route (page (app_step example_fix2 (app_run [MapReady, example_fix] app_init))) = None"
proof -
  have r: "app_run [MapReady, example_fix] app_init = app_step example_fix (app_run [MapReady] app_init)"
    by (simp add: app_run_def)
  have m: "mapRef (view (app_run [MapReady, example_fix] app_init))
     = Some \<lparr>viewport = View (40.7, -74) 15,
             layers = [TileLayer, Marker Current (40.7, -74) ''Current Location'']\<rparr>"
    unfolding r by (simp add: run_ready example_fix_def step_fix)
  have n: "route (page (app_run [MapReady, example_fix] app_init)) = None"
    unfolding r by (simp add: run_ready example_fix_def step_fix index_init_def)
  show ?thesis
    using every_fix_recentres [OF m, of "(-73.9, 40.8)" ReverseFailed] m n
    by (simp add: example_fix2_def)
qed

section \<open>Markers\<close>

text \<open>
  Two fixes leave two markers for the current location on the map, and a click on the
  map after a fix removes the marker of the current location.
\<close>

theorem current_markers_accumulate:
  "markers_of Current (app_run [MapReady, example_fix, example_fix2] app_init)
     = [Marker Current (40.7, -74) ''Current Location'',
        Marker Current (40.8, -73.9) ''Current Location'']
   \<and> markers_of Current (app_run [MapReady, example_fix] app_init)
     = [Marker Current (40.7, -74) ''Current Location'']
   \<and> markers_of Current (app_run [MapReady, example_fix, example_click] app_init) = []"
proof -
  have r: "app_run [MapReady, example_fix] app_init = app_step example_fix (app_run [MapReady] app_init)"
    and r2: "app_run [MapReady, example_fix, example_fix2] app_init
             = app_step example_fix2 (app_step example_fix (app_run [MapReady] app_init))"
    and r3: "app_run [MapReady, example_fix, example_click] app_init
             = app_step example_click (app_step example_fix (app_run [MapReady] app_init))"
    by (simp_all add: app_run_def)
  have t: "tracked (view (app_step example_fix (app_run [MapReady] app_init)))"
    using tracked_app_run [of "[MapReady, example_fix]"] unfolding r .
  have n: "selectedRef (app_step example_fix (app_run [MapReady] app_init))
             \<noteq> Some (nextRef (app_step example_fix (app_run [MapReady] app_init)))"
    using new_object_not_selected [of "[MapReady, example_fix]"] unfolding r .
  have a: "markers_of Current (app_step example_fix2 (app_step example_fix (app_run [MapReady] app_init)))
     = [Marker Current (40.7, -74) ''Current Location'',
        Marker Current (40.8, -73.9) ''Current Location'']"
    by (simp add: run_ready example_fix_def example_fix2_def step_fix markers_of_def)
  have b: "markers_of Current (app_step example_fix (app_run [MapReady] app_init))
     = [Marker Current (40.7, -74) ''Current Location'']"
    by (simp add: run_ready example_fix_def step_fix markers_of_def)
  have m: "mapRef (view (app_step example_fix (app_run [MapReady] app_init)))
     = Some \<lparr>viewport = View (40.7, -74) 15,
             layers = [TileLayer, Marker Current (40.7, -74) ''Current Location'']\<rparr>"
    by (simp add: run_ready example_fix_def step_fix)
  have c: "markers_of Current (app_step example_click (app_step example_fix (app_run [MapReady] app_init))) = []"
    unfolding example_click_def step_click [OF m]
    by (simp add: step_select [OF t m n] markers_of_def)
  show ?thesis unfolding r r2 r3 using a b c by simp
qed

text \<open>
  C9, as the map view has it. On a map that is ready, in any state the events can reach:
  after selecting the object \<open>A\<close> and then another object \<open>B\<close> the selected location is
  \<open>B\<close> and the map holds the tile layer and the marker of \<open>B\<close> and nothing else; the same
  holds after a click on the map, which always selects a new object; selecting the
  object that is selected already, as a click on a recent search can, changes nothing
  on the map; in every state the map holds at most one marker of the selected location.
  Markers are not kept by role: selecting an object that is not selected already removes
  the markers of the current location as well, and a position fix adds a marker for the
  current location without removing an earlier one.
\<close>

theorem selection_leaves_one_selected_marker:
  assumes "mapRef (view (app_run es app_init)) \<noteq> None" and "objB \<noteq> objA"
  shows "selectedLocation (page (selectLocation rb objB B
           (selectLocation ra objA A (app_run es app_init)))) = Some B
       \<and> map_option layers (mapRef (view (selectLocation rb objB B
           (selectLocation ra objA A (app_run es app_init)))))
           = Some [TileLayer,
                   Marker Selected (snd (coordinates_loc B), fst (coordinates_loc B)) (name_loc B)]
       \<and> markers_of Selected (selectLocation rb objB B
           (selectLocation ra objA A (app_run es app_init)))
           = [Marker Selected (snd (coordinates_loc B), fst (coordinates_loc B)) (name_loc B)]
       \<and> map_option layers (mapRef (view (app_step (MapClick now lat lng resp) (app_run es app_init))))
           = Some (TileLayer # map (\<lambda>loc. Marker Selected (lat, lng) (name_loc loc))
                                 (map_on_click now lat lng resp))
       \<and> view (selectLocation rb objA A' (selectLocation ra objA A (app_run es app_init)))
           = view (selectLocation ra objA A (app_run es app_init))
       \<and> length (markers_of Selected (app_run es app_init)) \<le> 1
       \<and> (selectedRef (app_run es app_init) \<noteq> Some objB
            \<longrightarrow> markers_of Current (selectLocation rb objB B (app_run es app_init)) = [])
       \<and> markers_of Current (foundCurrentLocation C (app_run es app_init))
           = markers_of Current (app_run es app_init)
             @ [Marker Current (snd (coordinates_loc C), fst (coordinates_loc C)) ''Current Location'']"
proof -
  let ?a = "app_run es app_init"
  let ?a1 = "selectLocation ra objA A ?a"
  from assms(1) obtain m where m: "mapRef (view ?a) = Some m" by auto
  have t: "tracked (view ?a)" by (rule tracked_app_run)
  have t1: "tracked (view ?a1)" using t by (rule tracked_selectLocation)
  have "mapRef (view ?a1) \<noteq> None"
    using m by (rule ready_selectLocation)
  then obtain m1 where m1: "mapRef (view ?a1) = Some m1" by auto
  have r1: "selectedRef ?a1 \<noteq> Some objB"
    using assms(2) by (simp add: selectLocation_def Let_def)
  have sel: "selectedLocation (page (selectLocation rb objB B ?a1)) = Some B"
    by (simp add: page_selectLocation handleLocationSelect_def Let_def)
  have lay: "map_option layers (mapRef (view (selectLocation rb objB B ?a1)))
           = Some [TileLayer,
                   Marker Selected (snd (coordinates_loc B), fst (coordinates_loc B)) (name_loc B)]"
    by (simp add: step_select [OF t1 m1 r1])
  have one: "markers_of Selected (selectLocation rb objB B ?a1)
           = [Marker Selected (snd (coordinates_loc B), fst (coordinates_loc B)) (name_loc B)]"
    by (simp add: step_select [OF t1 m1 r1] markers_of_def)
  have click: "map_option layers (mapRef (view (app_step (MapClick now lat lng resp) ?a)))
           = Some (TileLayer # map (\<lambda>loc. Marker Selected (lat, lng) (name_loc loc))
                                 (map_on_click now lat lng resp))"
    using m
    by (cases resp)
       (simp_all add: app_step_def map_on_click_def
          step_select [OF t m new_object_not_selected])
  have same: "view (selectLocation rb objA A' ?a1) = view ?a1"
    by (rule step_reselect) (simp add: selectLocation_def Let_def)
  have cur: "markers_of Current (selectLocation rb objB B ?a) = []"
    if "selectedRef ?a \<noteq> Some objB"
    by (simp add: step_select [OF t m that] markers_of_def)
  from sel lay one click same cur at_most_one_selected_marker [of es] current_marker_added [OF m]
  show ?thesis by simp
qed

theorem selection_leaves_one_selected_marker_witness:
  "mapRef (view (app_run [MapReady, example_fix] app_init)) \<noteq> None
   \<and> markers_of Selected (selectLocation index_init 1 example_destination
        (selectLocation index_init 0 example_origin (app_run [MapReady, example_fix] app_init)))
     = [Marker Selected (40.8, -73.9) ''Selected Location'']
   \<and> markers_of Current (selectLocation index_init 1 example_destination
        (app_run [MapReady, example_fix] app_init)) = []
   \<and> markers_of Current (selectLocation index_init 0 example_origin
        (selectLocation index_init 0 example_origin
           (foundCurrentLocation example_origin (app_run [MapReady, example_fix] app_init))))
     = markers_of Current (selectLocation index_init 0 example_origin
           (foundCurrentLocation example_origin (app_run [MapReady, example_fix] app_init)))
   \<and> markers_of Current (foundCurrentLocation example_origin (app_run [MapReady, example_fix] app_init))
     = [Marker Current (40.7, -74) ''Current Location'', Marker Current (40.7, -74) ''Current Location'']"
proof -
  have r: "app_run [MapReady, example_fix] app_init = app_step example_fix (app_run [MapReady] app_init)"
    by (simp add: app_run_def)
  have m: "mapRef (view (app_run [MapReady, example_fix] app_init)) \<noteq> None"
    unfolding r by (simp add: run_ready example_fix_def step_fix)
  have b: "markers_of Current (app_run [MapReady, example_fix] app_init)
     = [Marker Current (40.7, -74) ''Current Location'']"
    unfolding r by (simp add: run_ready example_fix_def step_fix markers_of_def)
  have n: "selectedRef (app_run [MapReady, example_fix] app_init) \<noteq> Some 1"
    unfolding r by (simp add: run_ready example_fix_def step_fix)
  have d: "(1::nat) \<noteq> 0" by simp
  have s: "markers_of Current (selectLocation index_init 0 example_origin
        (selectLocation index_init 0 example_origin
           (foundCurrentLocation example_origin (app_run [MapReady, example_fix] app_init))))
     = markers_of Current (selectLocation index_init 0 example_origin
           (foundCurrentLocation example_origin (app_run [MapReady, example_fix] app_init)))"
    by (simp add: markers_of_def selectLocation_def Let_def)
  show ?thesis
    using selection_leaves_one_selected_marker
            [OF m d, where rb = index_init and B = example_destination and ra = index_init
               and A = example_origin and now = 1730000000000 and lat = "40.8" and lng = "-73.9"
               and resp = ReverseFailed and A' = example_origin and C = example_origin]
          m b n s
    by (simp add: example_destination_def example_origin_def)
qed

section \<open>Selection and the route\<close>

text \<open>
  A route stays in the page state when another location is selected. After a position
  fix the page is put in directions mode; the panel, whose origin is the current
  location and whose destination was chosen in its own destination field, hands over the
  provider's route; a click on the map then selects a location that is not the route's
  destination, and the route is still the page's route.
\<close>

theorem selection_keeps_route:
  "currentLocation (page (app_run [MapReady, example_fix, DirectionsToggle] app_init))
     = Some example_origin
   \<and> snd (calculateRoute (RoutingData ''Ok'' (Some [example_osrm_route]))
            (example_panel\<lparr>actualDestination := Some example_end\<rparr>)) = [example_trip]
   \<and> destination_route example_trip = example_end
   \<and> id_loc example_end = ''7''
   \<and> route (page (app_run [MapReady, example_fix, DirectionsToggle,
                            RouteCalculated example_trip, example_click2] app_init))
     = Some example_trip
   \<and> map_option id_loc (selectedLocation (page (app_run
         [MapReady, example_fix, DirectionsToggle,
          RouteCalculated example_trip, example_click2] app_init)))
     = Some ''1730000000001''"
proof -
  have o: "currentLocation (page (app_run [MapReady, example_fix, DirectionsToggle] app_init))
     = Some example_origin"
    by (simp add: app_run_def page_step_toggle handleDirectionsToggle_def
          run_ready [unfolded app_run_def, simplified] example_fix_def step_fix
          coordinate_label_origin example_origin_def)
  have t: "calculatedRoute example_origin example_end example_osrm_route = Some example_trip"
    by (simp add: calculatedRoute_def example_osrm_route_def example_route_def example_trip_def
          map_index_def toRouteStep_def opt_or_else_def or_else_def enumerate_eq_zip upt_rec
          digits_small digit_char_def)
  have b: "snd (calculateRoute (RoutingData ''Ok'' (Some [example_osrm_route]))
            (example_panel\<lparr>actualDestination := Some example_end\<rparr>)) = [example_trip]"
    by (simp add: calculateRoute_def example_panel_def t)
  have c: "destination_route example_trip = example_end"
    and d: "id_loc example_end = ''7''"
    by (simp_all add: example_trip_def example_end_def)
  have r: "app_run [MapReady, example_fix, DirectionsToggle,
                    RouteCalculated example_trip, example_click2] app_init
           = app_step example_click2
               (app_step (RouteCalculated example_trip)
                  (app_step DirectionsToggle
                     (app_step example_fix (app_run [MapReady] app_init))))"
    by (simp add: app_run_def)
  have m: "mapRef (view (app_step (RouteCalculated example_trip)
                  (app_step DirectionsToggle
                     (app_step example_fix (app_run [MapReady] app_init))))) \<noteq> None"
    by (simp add: view_step_toggle view_step_route ready_routeEffect
          run_ready example_fix_def step_fix)
  then obtain m' where m': "mapRef (view (app_step (RouteCalculated example_trip)
                  (app_step DirectionsToggle
                     (app_step example_fix (app_run [MapReady] app_init))))) = Some m'"
    by auto
  have f: "route (page (app_run [MapReady, example_fix, DirectionsToggle,
                            RouteCalculated example_trip, example_click2] app_init))
     = Some example_trip"
    unfolding r by (simp add: route_app_step example_click2_def)
  have g: "map_option id_loc (selectedLocation (page (app_run
         [MapReady, example_fix, DirectionsToggle,
          RouteCalculated example_trip, example_click2] app_init)))
     = Some ''1730000000001''"
    apply (subst r)
    apply (unfold example_click2_def step_click [OF m'])
    apply (simp add: page_selectLocation handleLocationSelect_def Let_def)
    done
  from o b c d f g show ?thesis by simp
qed

text \<open>
  C4, as the page has it. \<open>route\<close> changes through two events only: a calculated route
  sets it and the directions toggle makes it null, together with \<open>destination\<close>. Every
  other event, a selection among them, leaves \<open>route\<close> as it is: a route handed over
  before a selection is still the page's route afterwards, whatever its destination. On
  a map that is ready the polyline of the route, the last layer added, is taken off the
  map when an object that is not selected already is selected, which leaves the tile
  layer and the selected marker.
\<close>

theorem selection_never_clears_route:
  assumes "mapRef (view (app_run es app_init)) \<noteq> None"
    and "selectedRef (app_run es app_init) \<noteq> Some obj"
  shows "route (page (app_step e a))
           = (case e of
                DirectionsToggle \<Rightarrow> None
              | RouteCalculated r' \<Rightarrow> Some r'
              | _ \<Rightarrow> route (page a))
       \<and> route (handleLocationSelect render loc s) = route s
       \<and> route (handleDirectionsToggle s) = None
       \<and> destination (handleDirectionsToggle s) = None
       \<and> route (page (selectLocation render obj loc
                   (app_step (RouteCalculated r) (app_run es app_init)))) = Some r
       \<and> map_option (\<lambda>m. last (layers m))
           (mapRef (view (app_step (RouteCalculated r) (app_run es app_init))))
           = Some (Polyline (map (\<lambda>coord. (snd coord, fst coord)) (geometry r)))
       \<and> map_option layers
           (mapRef (view (selectLocation render obj loc
                      (app_step (RouteCalculated r) (app_run es app_init)))))
           = Some [TileLayer,
                   Marker Selected (snd (coordinates_loc loc), fst (coordinates_loc loc)) (name_loc loc)]"
proof -
  let ?a = "app_run es app_init"
  let ?a1 = "app_step (RouteCalculated r) ?a"
  from assms(1) obtain m where m: "mapRef (view ?a) = Some m" by auto
  have t: "tracked (view ?a1)"
    using tracked_app_run by (rule tracked_app_step)
  have v: "view ?a1 = routeEffect (Some r) (view ?a)"
    and n: "selectedRef ?a1 = selectedRef ?a"
    by (simp_all add: app_step_def Let_def handleRouteCalculated_def)
  have m1: "mapRef (view ?a1)
     = Some (m\<lparr>viewport := Bounds (map (\<lambda>coord. (snd coord, fst coord)) (geometry r)),
                layers := layers m @ [Polyline (map (\<lambda>coord. (snd coord, fst coord)) (geometry r))]\<rparr>)"
    unfolding v using m by (rule mapRef_routeEffect)
  have n1: "selectedRef ?a1 \<noteq> Some obj" using assms(2) by (simp add: n)
  have a: "route (page (selectLocation render obj loc ?a1)) = Some r"
    by (simp add: page_selectLocation route_handleLocationSelect page_step_route
          handleRouteCalculated_def)
  have b: "map_option layers (mapRef (view (selectLocation render obj loc ?a1)))
           = Some [TileLayer,
                   Marker Selected (snd (coordinates_loc loc), fst (coordinates_loc loc)) (name_loc loc)]"
    by (simp add: step_select [OF t m1 n1])
  have c: "route (handleDirectionsToggle s) = None \<and> destination (handleDirectionsToggle s) = None"
    by (simp add: handleDirectionsToggle_def)
  from a b c m1 route_app_step [of e a] show ?thesis
    by (simp add: route_handleLocationSelect)
qed

theorem selection_never_clears_route_witness:
  "mapRef (view (app_run [MapReady] app_init)) \<noteq> None
   \<and> selectedRef (app_run [MapReady] app_init) \<noteq> Some 0
   \<and> route (page (selectLocation index_init 0 example_origin
        (app_step (RouteCalculated example_route) (app_run [MapReady] app_init)))) = Some example_route
   \<and> map_option layers (mapRef (view (selectLocation index_init 0 example_origin
        (app_step (RouteCalculated example_route) (app_run [MapReady] app_init)))))
     = Some [TileLayer, Marker Selected (40.7, -74) ''Current Location'']
   \<and> route (page (app_step (StepClick (0, 0))
        (app_step (RouteCalculated example_route) (app_run [MapReady] app_init)))) = Some example_route
   \<and> route (handleDirectionsToggle (index_init\<lparr>route := Some example_route\<rparr>)) = None"
proof -
  have m: "mapRef (view (app_run [MapReady] app_init)) \<noteq> None"
    and n: "selectedRef (app_run [MapReady] app_init) \<noteq> Some 0"
    by (simp_all add: run_ready)
  have p: "route (page (app_step (RouteCalculated example_route) (app_run [MapReady] app_init)))
             = Some example_route"
    by (simp add: page_step_route handleRouteCalculated_def)
  show ?thesis
    using selection_never_clears_route
            [OF m n, of "StepClick (0, 0)"
                "app_step (RouteCalculated example_route) (app_run [MapReady] app_init)"
                index_init example_origin
                "index_init\<lparr>route := Some example_route\<rparr>" example_route] m n p
    by (simp add: example_origin_def)
qed

section \<open>Search requests over time\<close>

text \<open>
  C6 at the input "Central" followed by "Central Park" within 300 ms. Both timers fire,
  both queries are sent; the answer for "Central Park" arrives first and is shown, the
  answer for "Central" arrives afterwards and replaces it while the search box reads
  "Central Park".
\<close>

theorem superseded_search_overwrites:
  "sent (search_run [Input (utf16 ''Central''), Input (utf16 ''Central Park''), TimerFires, TimerFires,
                     Arrives 1 (SearchData central_park_items),
                     Arrives 0 (SearchData central_items)] search_box_init)
     = [utf16 ''Central'', utf16 ''Central Park'']
   \<and> map name_res (searchResults (panel (search_run
         [Input (utf16 ''Central''), Input (utf16 ''Central Park''), TimerFires, TimerFires,
          Arrives 1 (SearchData central_park_items)] search_box_init)))
     = [''Central Park'']
   \<and> searchQuery (panel (search_run [Input (utf16 ''Central''), Input (utf16 ''Central Park''), TimerFires, TimerFires,
                     Arrives 1 (SearchData central_park_items),
                     Arrives 0 (SearchData central_items)] search_box_init))
     = utf16 ''Central Park''
   \<and> map name_res (searchResults (panel (search_run
         [Input (utf16 ''Central''), Input (utf16 ''Central Park''), TimerFires, TimerFires,
          Arrives 1 (SearchData central_park_items),
          Arrives 0 (SearchData central_items)] search_box_init)))
     = [''Central Station'']"
  by (simp add: search_run_def search_step_def handleSearchInputChange_def search_box_init_def
        search_panel_init_def searchLocations_begin_def searchLocations_resume_def trim_def
        isWhiteSpace_def utf16_def central_items_def central_park_items_def map_index_def toSearchResult_def
        split_comma_first_def)

end
